theory Spec2Isabelle
  imports Complex_Main "HOL-Library.Sublist"
begin

section \<open>JavaScript values\<close>

text \<open>
  A JavaScript string is a sequence of UTF-16 code units; each element of a \<open>jstring\<close>
  is one code unit (a number below 65536). \<open>js\<close> turns an ASCII literal of the theory
  into such a string.
\<close>

type_synonym jstring = "nat list"

definition js :: "string \<Rightarrow> jstring" where
  "js s = map of_char s"

text \<open>
  The values the page and the server action handle. Numbers are idealised as exact
  rationals (every finite double is one); NaN and the infinities are outside the model.
  A \<open>Date\<close> holds its time value in milliseconds, or nothing when it is an Invalid Date.
  An object is the list of its own properties in insertion order.
\<close>

datatype jsval =
    Undefined
  | Null
  | Bool bool
  | Num rat
  | Str jstring
  | DateV "int option"
  | Arr "jsval list"
  | Obj "(jstring \<times> jsval) list"

text \<open>
  What a \<open>throw\<close> carries: \<open>null\<close> or \<open>undefined\<close>, or any other value (an error object
  or a primitive), which has a \<open>message\<close> or has none.
\<close>

datatype thrown = Nullish | Thrown "jstring option"

fun truthy :: "jsval \<Rightarrow> bool" where
  "truthy Undefined = False"
| "truthy Null = False"
| "truthy (Bool b) = b"
| "truthy (Num r) = (r \<noteq> 0)"
| "truthy (Str s) = (s \<noteq> [])"
| "truthy (DateV t) = True"
| "truthy (Arr xs) = True"
| "truthy (Obj ps) = True"

text \<open>Reading \<open>v.k\<close> on a value that is neither \<open>null\<close> nor \<open>undefined\<close>.\<close>

fun get :: "jsval \<Rightarrow> jstring \<Rightarrow> jsval" where
  "get (Obj ps) k = (case map_of ps k of Some v \<Rightarrow> v | None \<Rightarrow> Undefined)"
| "get v k = Undefined"

text \<open>Writing \<open>o.k = v\<close>: an existing property keeps its place, a new one goes last.\<close>

fun set_prop_list :: "(jstring \<times> jsval) list \<Rightarrow> jstring \<Rightarrow> jsval \<Rightarrow> (jstring \<times> jsval) list" where
  "set_prop_list [] k v = [(k, v)]"
| "set_prop_list ((k', v') # ps) k v =
     (if k' = k then (k, v) # ps else (k', v') # set_prop_list ps k v)"

fun set_prop :: "jsval \<Rightarrow> jstring \<Rightarrow> jsval \<Rightarrow> jsval" where
  "set_prop (Obj ps) k v = Obj (set_prop_list ps k v)"
| "set_prop d k v = d"

text \<open>The own properties an object spread \<open>{...v}\<close> copies.\<close>

fun own_properties :: "jsval \<Rightarrow> (jstring \<times> jsval) list" where
  "own_properties (Obj ps) = ps"
| "own_properties v = []"

section \<open>Strings: split, join\<close>

text \<open>\<open>s.split(sep)\<close>: the pieces between the leftmost, non-overlapping occurrences of \<open>sep\<close>.\<close>

fun split_at :: "jstring \<Rightarrow> jstring \<Rightarrow> jstring \<Rightarrow> jstring list" where
  "split_at sep cur [] = [cur]"
| "split_at sep cur (c # cs) =
     (if sep \<noteq> [] \<and> prefix sep (c # cs)
      then cur # split_at sep [] (drop (length sep) (c # cs))
      else split_at sep (cur @ [c]) cs)"

definition split :: "jstring \<Rightarrow> jstring \<Rightarrow> jstring list" where
  "split s sep = (if sep = [] then map (\<lambda>c. [c]) s else split_at sep [] s)"

fun join :: "jstring list \<Rightarrow> jstring \<Rightarrow> jstring" where
  "join [] sep = []"
| "join [x] sep = x"
| "join (x # y # ys) sep = x @ sep @ join (y # ys) sep"

fun contains :: "jstring \<Rightarrow> jstring \<Rightarrow> bool" where
  "contains [] sep = (sep = [])"
| "contains (c # cs) sep = (prefix sep (c # cs) \<or> contains cs sep)"

section \<open>Numbers as text\<close>

text \<open>
  \<open>Number::toString\<close> for the exact numbers of the model. \<open>places_from\<close> looks for the least
  number of decimal places that writes the number exactly, so that the number is
  \<open>m / 10 ^ places\<close>. With \<open>s\<close> the digits of \<open>m\<close> without closing zeros, \<open>k\<close> their count and
  \<open>n\<close> the position of the point, the text is: the digits and \<open>n - k\<close> zeros; or the digits
  with a point after the first \<open>n\<close>; or \<open>0.\<close>, zeros and the digits; or, from \<open>1e21\<close> on and
  below \<open>1e-6\<close>, the exponent notation.
\<close>

fun digits_of :: "nat \<Rightarrow> jstring" where
  "digits_of n = (if n < 10 then [48 + n] else digits_of (n div 10) @ [48 + n mod 10])"

declare digits_of.simps [simp del]

definition number_of :: "jstring \<Rightarrow> nat" where
  "number_of ds = foldl (\<lambda>n d. 10 * n + (d - 48)) 0 ds"

fun places_from :: "nat \<Rightarrow> nat \<Rightarrow> nat \<Rightarrow> nat" where
  "places_from 0 q k = k"
| "places_from (Suc fuel) q k = (if q dvd 10 ^ k then k else places_from fuel q (Suc k))"

definition strip_zeros :: "jstring \<Rightarrow> jstring" where
  "strip_zeros ds = rev (dropWhile (\<lambda>c. c = 48) (rev ds))"

definition number_digits :: "nat \<Rightarrow> nat \<Rightarrow> jstring" where
  "number_digits m places =
     (let ds = digits_of m;
          s = strip_zeros ds;
          k = int (length s);
          n = int (length ds) - int places
      in if k \<le> n \<and> n \<le> 21 then s @ replicate (nat (n - k)) 48
         else if 0 < n \<and> n \<le> 21 then take (nat n) s @ [46] @ drop (nat n) s
         else if - 6 < n \<and> n \<le> 0 then [48, 46] @ replicate (nat (- n)) 48 @ s
         else
           (let e = n - 1;
                exponent = [101, if e < 0 then 45 else 43] @ digits_of (nat \<bar>e\<bar>)
            in if k = 1 then s @ exponent else take 1 s @ [46] @ drop 1 s @ exponent))"

definition number_text :: "rat \<Rightarrow> jstring" where
  "number_text r =
     (let (p, q) = quotient_of r;
          places = places_from (nat q) (nat q) 0;
          m = nat (\<bar>p\<bar> * 10 ^ places div q)
      in if m = 0 then [48]
         else if p < 0 then 45 # number_digits m places
         else number_digits m places)"

section \<open>The host\<close>

text \<open>
  What the JavaScript host and date-fns compute and the repository only calls:
  \<open>Date.parse\<close> (nothing for NaN), \<open>Date.prototype.toISOString\<close>, \<open>Date.prototype.toString\<close>
  (of a time value, or of an Invalid Date), date-fns' \<open>format(d, 'yyyy-MM-dd')\<close> in the local
  time zone, the conversion \<open>Number(s)\<close> of a string (nothing for NaN), and
  react-hook-form's \<open>form.reset(values)\<close>, which gives the form's new values from the ones
  it has and the ones it is given. The functions of the model take them as a parameter.
\<close>

record host =
  Date_parse :: "jstring \<Rightarrow> int option"
  toISOString :: "int \<Rightarrow> jstring"
  Date_toString :: "int option \<Rightarrow> jstring"
  format_yyyy_MM_dd :: "int \<Rightarrow> jstring"
  StringToNumber :: "jstring \<Rightarrow> rat option"
  form_reset :: "jsval \<Rightarrow> jsval \<Rightarrow> jsval"

text \<open>\<open>String(v)\<close>: an array joins its elements with commas, leaving \<open>null\<close> and \<open>undefined\<close> empty.\<close>

fun ToString :: "host \<Rightarrow> jsval \<Rightarrow> jstring" where
  "ToString h Undefined = js ''undefined''"
| "ToString h Null = js ''null''"
| "ToString h (Bool b) = (if b then js ''true'' else js ''false'')"
| "ToString h (Num r) = number_text r"
| "ToString h (Str s) = s"
| "ToString h (DateV t) = Date_toString h t"
| "ToString h (Arr xs) =
     join (map (\<lambda>x. if x = Undefined \<or> x = Null then [] else ToString h x) xs) [44]"
| "ToString h (Obj ps) = js ''[object Object]''"

text \<open>
  \<open>new Date(v)\<close>. A time value outside \<open>\<plusminus>8.64e15\<close> gives an Invalid Date; a fraction is cut
  off towards zero; an array or object is turned into a string first.
\<close>

definition TimeClip :: "rat \<Rightarrow> int option" where
  "TimeClip r =
     (if \<bar>r\<bar> \<le> 8640000000000000 then Some (if 0 \<le> r then \<lfloor>r\<rfloor> else \<lceil>r\<rceil>) else None)"

fun new_Date :: "host \<Rightarrow> jsval \<Rightarrow> jsval" where
  "new_Date h Undefined = DateV None"
| "new_Date h Null = DateV (Some 0)"
| "new_Date h (Bool b) = DateV (Some (if b then 1 else 0))"
| "new_Date h (Num r) = DateV (TimeClip r)"
| "new_Date h (Str s) = DateV (Date_parse h s)"
| "new_Date h (DateV t) = DateV t"
| "new_Date h v = DateV (Date_parse h (ToString h v))"

text \<open>
  date-fns' \<open>format(date, 'yyyy-MM-dd')\<close>: it turns a Date or a number into a date and throws
  a RangeError when that date is invalid, as it is for any other argument.
\<close>

fun date_fns_format :: "host \<Rightarrow> jsval \<Rightarrow> thrown + jstring" where
  "date_fns_format h (DateV (Some t)) = Inr (format_yyyy_MM_dd h t)"
| "date_fns_format h (Num r) =
     (case TimeClip r of
        Some t \<Rightarrow> Inr (format_yyyy_MM_dd h t)
      | None \<Rightarrow> Inl (Thrown (Some (js ''Invalid time value''))))"
| "date_fns_format h v = Inl (Thrown (Some (js ''Invalid time value'')))"

section \<open>Zod schemas\<close>

text \<open>
  The schema constructors the repository uses. A chain such as
  \<open>z.number().min(1).max(21).default(3)\<close> is read from the inside out:
  \<open>ZDefault (Num 3) (ZMax 21 (ZMin 1 ZNumber))\<close>.
\<close>

datatype zod =
    ZString
  | ZNumber
  | ZCoerceNumber
  | ZDate
  | ZEnum "jstring list"
  | ZMin rat zod
  | ZMax rat zod
  | ZDefault jsval zod
  | ZOptional zod

text \<open>\<open>z.coerce.number()\<close> applies \<open>Number\<close> to its input first.\<close>

fun coerce_number :: "host \<Rightarrow> jsval \<Rightarrow> rat option" where
  "coerce_number h Undefined = None"
| "coerce_number h Null = Some 0"
| "coerce_number h (Bool b) = Some (if b then 1 else 0)"
| "coerce_number h (Num r) = Some r"
| "coerce_number h (DateV t) = map_option of_int t"
| "coerce_number h (Str s) = StringToNumber h s"
| "coerce_number h v = StringToNumber h (ToString h v)"

text \<open>Parsing a value with a schema: the parsed value, or nothing when it is rejected.\<close>

fun zparse :: "host \<Rightarrow> zod \<Rightarrow> jsval \<Rightarrow> jsval option" where
  "zparse h ZString v = (case v of Str s \<Rightarrow> Some v | _ \<Rightarrow> None)"
| "zparse h ZNumber v = (case v of Num r \<Rightarrow> Some v | _ \<Rightarrow> None)"
| "zparse h ZCoerceNumber v = map_option Num (coerce_number h v)"
| "zparse h ZDate v = (case v of DateV (Some t) \<Rightarrow> Some v | _ \<Rightarrow> None)"
| "zparse h (ZEnum vs) v =
     (case v of Str s \<Rightarrow> if s \<in> set vs then Some v else None | _ \<Rightarrow> None)"
| "zparse h (ZMin n z) v =
     (case zparse h z v of
        Some (Num r) \<Rightarrow> if n \<le> r then Some (Num r) else None
      | Some (Str s) \<Rightarrow> if n \<le> of_nat (length s) then Some (Str s) else None
      | other \<Rightarrow> other)"
| "zparse h (ZMax n z) v =
     (case zparse h z v of
        Some (Num r) \<Rightarrow> if r \<le> n then Some (Num r) else None
      | Some (Str s) \<Rightarrow> if of_nat (length s) \<le> n then Some (Str s) else None
      | other \<Rightarrow> other)"
| "zparse h (ZDefault d z) v = (if v = Undefined then zparse h z d else zparse h z v)"
| "zparse h (ZOptional z) v = (if v = Undefined then Some Undefined else zparse h z v)"

text \<open>
  \<open>z.object(shape)\<close>: the input must be a plain object; each key of the shape is parsed
  from the input's property of that name; keys outside the shape are dropped, and a key
  that is absent from the input and parses to \<open>undefined\<close> is left out of the result.
\<close>

fun zfields :: "host \<Rightarrow> (jstring \<times> zod) list \<Rightarrow> (jstring \<times> jsval) list \<Rightarrow> (jstring \<times> jsval) list option" where
  "zfields h [] ps = Some []"
| "zfields h ((k, z) # shape) ps =
     (case zparse h z (get (Obj ps) k) of
        None \<Rightarrow> None
      | Some v \<Rightarrow>
          (case zfields h shape ps of
             None \<Rightarrow> None
           | Some out \<Rightarrow> Some (if v = Undefined \<and> map_of ps k = None then out else (k, v) # out)))"

definition zobject :: "host \<Rightarrow> (jstring \<times> zod) list \<Rightarrow> jsval \<Rightarrow> jsval option" where
  "zobject h shape v = (case v of Obj ps \<Rightarrow> map_option Obj (zfields h shape ps) | _ \<Rightarrow> None)"

section \<open>The flow (generate-personalized-itinerary.ts)\<close>

definition GeneratePersonalizedItineraryInputSchema :: "(jstring \<times> zod) list" where
  "GeneratePersonalizedItineraryInputSchema =
    [(js ''destination'', ZString),
     (js ''startDate'', ZString),
     (js ''days'', ZDefault (Num 3) (ZMax 21 (ZMin 1 ZNumber))),
     (js ''budget'', ZDefault (Str (js ''Medium'')) (ZEnum [js ''Low'', js ''Medium'', js ''Luxury''])),
     (js ''travelers'', ZDefault (Num 2) (ZMin 1 ZNumber)),
     (js ''interests'', ZString),
     (js ''pace'', ZDefault (Str (js ''Balanced'')) (ZEnum [js ''Relaxed'', js ''Balanced'', js ''Intense''])),
     (js ''mustInclude'', ZOptional ZString),
     (js ''avoid'', ZOptional ZString),
     (js ''notes'', ZOptional ZString)]"

record ItineraryItem =
  day :: rat
  date :: jstring
  morning :: jstring
  afternoon :: jstring
  evening :: jstring

text \<open>\<open>GeneratePersonalizedItineraryOutput\<close>; its field \<open>itinerary\<close> is \<open>plan\<close> here.\<close>

record Output =
  summary :: jstring
  plan :: "ItineraryItem list"
  estimatedBudget :: jstring
  tips :: jstring

text \<open>
  The generative side is outside the repository: the prompt call answers an input with
  an itinerary that fits the output schema, or throws. Genkit checks the input against
  the input schema, throws its own error when it does not fit, and otherwise hands the
  input on as it came.
\<close>

record backend =
  prompt :: "jsval \<Rightarrow> thrown + Output"
  schema_violation :: thrown

text \<open>The server: the calls of the flow it has seen, and what it wrote with \<open>console.error\<close>.\<close>

record server =
  flow_calls :: "jsval list"
  server_console :: "thrown list"

definition generatePersonalizedItineraryFlow :: "host \<Rightarrow> backend \<Rightarrow> jsval \<Rightarrow> thrown + Output" where
  "generatePersonalizedItineraryFlow h b input =
     (case zobject h GeneratePersonalizedItineraryInputSchema input of
        None \<Rightarrow> Inl (schema_violation b)
      | Some parsed \<Rightarrow> prompt b input)"

definition generatePersonalizedItinerary :: "host \<Rightarrow> backend \<Rightarrow> jsval \<Rightarrow> server \<Rightarrow> (thrown + Output) \<times> server" where
  "generatePersonalizedItinerary h b input sv =
     (generatePersonalizedItineraryFlow h b input, sv\<lparr>flow_calls := flow_calls sv @ [input]\<rparr>)"

section \<open>The server action (actions.ts)\<close>

text \<open>What the action returns: the itinerary, or the object \<open>{ error: s }\<close>.\<close>

datatype action_result = Itinerary Output | Error (error: jstring)

text \<open>
  A throw out of the action is a result \<open>Inl\<close>. In the \<open>catch\<close> block, \<open>console.error(e)\<close>
  comes first; reading \<open>e.message\<close> of a caught \<open>null\<close> or \<open>undefined\<close> throws a TypeError,
  which nothing catches; otherwise \<open>e.message || '...'\<close> takes the fallback when the
  message is missing or empty.
\<close>

definition generateItineraryAction :: "host \<Rightarrow> backend \<Rightarrow> jsval \<Rightarrow> server \<Rightarrow> (thrown + action_result) \<times> server" where
  "generateItineraryAction h b input sv =
     (case generatePersonalizedItinerary h b input sv of
        (Inr itinerary, sv1) \<Rightarrow> (Inr (Itinerary itinerary), sv1)
      | (Inl e, sv1) \<Rightarrow>
          (let sv2 = sv1\<lparr>server_console := server_console sv1 @ [e]\<rparr>
           in case e of
                Nullish \<Rightarrow> (Inl (Thrown (Some (js ''TypeError''))), sv2)
              | Thrown m \<Rightarrow>
                  (let msg = (case m of
                                Some t \<Rightarrow> if t \<noteq> [] then t else js ''An unknown error occurred.''
                              | None \<Rightarrow> js ''An unknown error occurred.'')
                   in (Inr (Error (js ''Failed to generate itinerary: '' @ msg)), sv2))))"

section \<open>JSON\<close>

text \<open>
  \<open>JSON.stringify\<close> and \<open>JSON.parse\<close> on the text itself. \<open>QuoteJSONString\<close> escapes the
  quote, the backslash, the control characters and lone surrogates.
\<close>

definition hex_digit :: "nat \<Rightarrow> nat" where
  "hex_digit d = (if d < 10 then 48 + d else 87 + d)"

definition hex_value :: "nat \<Rightarrow> nat option" where
  "hex_value c =
     (if 48 \<le> c \<and> c \<le> 57 then Some (c - 48)
      else if 97 \<le> c \<and> c \<le> 102 then Some (c - 87)
      else if 65 \<le> c \<and> c \<le> 70 then Some (c - 55)
      else None)"

definition unicode_escape :: "nat \<Rightarrow> jstring" where
  "unicode_escape c =
     [92, 117, hex_digit (c div 4096), hex_digit (c div 256 mod 16),
      hex_digit (c div 16 mod 16), hex_digit (c mod 16)]"

definition quote_unit :: "nat \<Rightarrow> jstring" where
  "quote_unit c =
     (if c = 8 then [92, 98]
      else if c = 9 then [92, 116]
      else if c = 10 then [92, 110]
      else if c = 12 then [92, 102]
      else if c = 13 then [92, 114]
      else if c = 34 then [92, 34]
      else if c = 92 then [92, 92]
      else if c < 32 then unicode_escape c
      else [c])"

definition is_high_surrogate :: "nat \<Rightarrow> bool" where
  "is_high_surrogate c = (55296 \<le> c \<and> c \<le> 56319)"

definition is_low_surrogate :: "nat \<Rightarrow> bool" where
  "is_low_surrogate c = (56320 \<le> c \<and> c \<le> 57343)"

fun quote_units :: "jstring \<Rightarrow> jstring" where
  "quote_units [] = []"
| "quote_units [c] =
     (if is_high_surrogate c \<or> is_low_surrogate c then unicode_escape c else quote_unit c)"
| "quote_units (c # d # cs) =
     (if is_high_surrogate c \<and> is_low_surrogate d then c # d # quote_units cs
      else if is_high_surrogate c \<or> is_low_surrogate c then unicode_escape c @ quote_units (d # cs)
      else quote_unit c @ quote_units (d # cs))"

definition QuoteJSONString :: "jstring \<Rightarrow> jstring" where
  "QuoteJSONString s = [34] @ quote_units s @ [34]"

text \<open>
  \<open>JSON.stringify(v)\<close>: nothing for \<open>undefined\<close>. A Date is written as its ISO string, an
  Invalid Date as \<open>null\<close>; a property whose value is \<open>undefined\<close> is left out, an array
  element that is \<open>undefined\<close> is written \<open>null\<close>.
\<close>

fun JSON_stringify :: "host \<Rightarrow> jsval \<Rightarrow> jstring option" where
  "JSON_stringify h Undefined = None"
| "JSON_stringify h Null = Some (js ''null'')"
| "JSON_stringify h (Bool b) = Some (if b then js ''true'' else js ''false'')"
| "JSON_stringify h (Num r) = Some (number_text r)"
| "JSON_stringify h (Str s) = Some (QuoteJSONString s)"
| "JSON_stringify h (DateV t) =
     (case t of None \<Rightarrow> Some (js ''null'') | Some ms \<Rightarrow> Some (QuoteJSONString (toISOString h ms)))"
| "JSON_stringify h (Arr xs) =
     Some ([91] @ join (map (\<lambda>x. case JSON_stringify h x of None \<Rightarrow> js ''null'' | Some t \<Rightarrow> t) xs) [44] @ [93])"
| "JSON_stringify h (Obj ps) =
     Some ([123] @
           join (concat (map (\<lambda>(k, v). case JSON_stringify h v of
                                 None \<Rightarrow> []
                               | Some t \<Rightarrow> [QuoteJSONString k @ [58] @ t]) ps)) [44]
           @ [125])"



text \<open>\<open>localStorage.setItem\<close> and \<open>btoa\<close> turn their argument into a string.\<close>

definition text_of :: "jstring option \<Rightarrow> jstring" where
  "text_of t = (case t of None \<Rightarrow> js ''undefined'' | Some s \<Rightarrow> s)"

text \<open>
  \<open>JSON.parse\<close>. The parsers return the value read and the rest of the text. The fuel of
  \<open>parse_value\<close> bounds the nesting and the number of members; \<open>JSON_parse\<close> gives it more
  than the text is long.
\<close>

definition is_ws :: "nat \<Rightarrow> bool" where
  "is_ws c = (c = 32 \<or> c = 9 \<or> c = 10 \<or> c = 13)"

definition skip_ws :: "jstring \<Rightarrow> jstring" where
  "skip_ws s = dropWhile is_ws s"

definition is_digit :: "nat \<Rightarrow> bool" where
  "is_digit c = (48 \<le> c \<and> c \<le> 57)"

definition unescape :: "nat \<Rightarrow> nat option" where
  "unescape e =
     (if e = 34 then Some 34
      else if e = 92 then Some 92
      else if e = 47 then Some 47
      else if e = 98 then Some 8
      else if e = 102 then Some 12
      else if e = 110 then Some 10
      else if e = 114 then Some 13
      else if e = 116 then Some 9
      else None)"

fun parse_chars :: "jstring \<Rightarrow> (jstring \<times> jstring) option" where
  "parse_chars [] = None"
| "parse_chars (c # cs) =
     (if c = 34 then Some ([], cs)
      else if c = 92 then
        (case cs of
           [] \<Rightarrow> None
         | e # r \<Rightarrow>
             if e = 117 then
               (case r of
                  a # b # x # d # r' \<Rightarrow>
                    (case (hex_value a, hex_value b, hex_value x, hex_value d) of
                       (Some i, Some j, Some k, Some l) \<Rightarrow>
                         map_option (apfst ((#) (4096 * i + 256 * j + 16 * k + l))) (parse_chars r')
                     | _ \<Rightarrow> None)
                | _ \<Rightarrow> None)
             else
               (case unescape e of
                  None \<Rightarrow> None
                | Some u \<Rightarrow> map_option (apfst ((#) u)) (parse_chars r)))
      else if c < 32 then None
      else map_option (apfst ((#) c)) (parse_chars cs))"

definition pow10 :: "int \<Rightarrow> rat" where
  "pow10 e = (if 0 \<le> e then 10 ^ nat e else 1 / 10 ^ nat (- e))"

definition parse_fraction :: "jstring \<Rightarrow> (jstring \<times> jstring) option" where
  "parse_fraction s =
     (case s of
        [] \<Rightarrow> Some ([], s)
      | c # r \<Rightarrow>
          if c = 46 then
            (if takeWhile is_digit r = [] then None
             else Some (takeWhile is_digit r, dropWhile is_digit r))
          else Some ([], s))"

definition parse_sign :: "jstring \<Rightarrow> int \<times> jstring" where
  "parse_sign s =
     (case s of
        [] \<Rightarrow> (1, s)
      | c # r \<Rightarrow> if c = 43 then (1, r) else if c = 45 then (- 1, r) else (1, s))"

definition parse_exponent :: "jstring \<Rightarrow> (int \<times> jstring) option" where
  "parse_exponent s =
     (case s of
        [] \<Rightarrow> Some (0, s)
      | c # r \<Rightarrow>
          if c = 101 \<or> c = 69 then
            (let (sg, r1) = parse_sign r
             in if takeWhile is_digit r1 = [] then None
                else Some (sg * int (number_of (takeWhile is_digit r1)), dropWhile is_digit r1))
          else Some (0, s))"

definition parse_number :: "jstring \<Rightarrow> (rat \<times> jstring) option" where
  "parse_number s =
     (let (neg, s1) = (case s of [] \<Rightarrow> (False, s) | c # r \<Rightarrow> if c = 45 then (True, r) else (False, s));
          ip = takeWhile is_digit s1
      in if ip = [] \<or> (1 < length ip \<and> hd ip = 48) then None
         else
           (case parse_fraction (dropWhile is_digit s1) of
              None \<Rightarrow> None
            | Some (fp, s3) \<Rightarrow>
                (case parse_exponent s3 of
                   None \<Rightarrow> None
                 | Some (ex, s4) \<Rightarrow>
                     Some ((if neg then - 1 else 1) * of_nat (number_of (ip @ fp))
                             * pow10 (ex - int (length fp)), s4))))"

text \<open>A key that comes twice keeps its first place and takes the last value.\<close>

definition make_object :: "(jstring \<times> jsval) list \<Rightarrow> jsval" where
  "make_object ms = Obj (foldl (\<lambda>ps (k, v). set_prop_list ps k v) [] ms)"

fun parse_value :: "nat \<Rightarrow> jstring \<Rightarrow> (jsval \<times> jstring) option"
  and parse_elements :: "nat \<Rightarrow> jstring \<Rightarrow> (jsval list \<times> jstring) option"
  and parse_members :: "nat \<Rightarrow> jstring \<Rightarrow> ((jstring \<times> jsval) list \<times> jstring) option"
where
  "parse_value 0 s = None"
| "parse_value (Suc n) s =
     (case skip_ws s of
        [] \<Rightarrow> None
      | c # cs \<Rightarrow>
          if c = 123 then
            (case skip_ws cs of
               [] \<Rightarrow> None
             | d # ds \<Rightarrow>
                 if d = 125 then Some (Obj [], ds)
                 else map_option (apfst make_object) (parse_members n (d # ds)))
          else if c = 91 then
            (case skip_ws cs of
               [] \<Rightarrow> None
             | d # ds \<Rightarrow>
                 if d = 93 then Some (Arr [], ds)
                 else map_option (apfst Arr) (parse_elements n (d # ds)))
          else if c = 34 then map_option (apfst Str) (parse_chars cs)
          else if prefix (js ''true'') (c # cs) then Some (Bool True, drop 4 (c # cs))
          else if prefix (js ''false'') (c # cs) then Some (Bool False, drop 5 (c # cs))
          else if prefix (js ''null'') (c # cs) then Some (Null, drop 4 (c # cs))
          else map_option (apfst Num) (parse_number (c # cs)))"
| "parse_elements 0 s = None"
| "parse_elements (Suc n) s =
     (case parse_value n s of
        None \<Rightarrow> None
      | Some (v, r) \<Rightarrow>
          (case skip_ws r of
             [] \<Rightarrow> None
           | c # cs \<Rightarrow>
               if c = 93 then Some ([v], cs)
               else if c = 44 then map_option (apfst ((#) v)) (parse_elements n cs)
               else None))"
| "parse_members 0 s = None"
| "parse_members (Suc n) s =
     (case skip_ws s of
        [] \<Rightarrow> None
      | q # cs \<Rightarrow>
          if q \<noteq> 34 then None
          else
            (case parse_chars cs of
               None \<Rightarrow> None
             | Some (k, r) \<Rightarrow>
                 (case skip_ws r of
                    [] \<Rightarrow> None
                  | c # r1 \<Rightarrow>
                      if c \<noteq> 58 then None
                      else
                        (case parse_value n r1 of
                           None \<Rightarrow> None
                         | Some (v, r2) \<Rightarrow>
                             (case skip_ws r2 of
                                [] \<Rightarrow> None
                              | d # r3 \<Rightarrow>
                                  if d = 125 then Some ([(k, v)], r3)
                                  else if d = 44 then map_option (apfst ((#) (k, v))) (parse_members n r3)
                                  else None)))))"

definition JSON_parse :: "jstring \<Rightarrow> thrown + jsval" where
  "JSON_parse s =
     (case parse_value (Suc (length s)) s of
        None \<Rightarrow> Inl (Thrown (Some (js ''Unexpected token'')))
      | Some (v, r) \<Rightarrow>
          if skip_ws r = [] then Inr v else Inl (Thrown (Some (js ''Unexpected token''))))"

section \<open>Base64: btoa and atob\<close>

definition b64_char :: "nat \<Rightarrow> nat" where
  "b64_char i =
     (if i < 26 then 65 + i
      else if i < 52 then 71 + i
      else if i < 62 then i - 4
      else if i = 62 then 43
      else 47)"

definition b64_value :: "nat \<Rightarrow> nat option" where
  "b64_value c =
     (if 65 \<le> c \<and> c \<le> 90 then Some (c - 65)
      else if 97 \<le> c \<and> c \<le> 122 then Some (c - 71)
      else if 48 \<le> c \<and> c \<le> 57 then Some (c + 4)
      else if c = 43 then Some 62
      else if c = 47 then Some 63
      else None)"

fun b64_encode :: "nat list \<Rightarrow> jstring" where
  "b64_encode (a # b # c # rest) =
     [b64_char (a div 4), b64_char (a mod 4 * 16 + b div 16),
      b64_char (b mod 16 * 4 + c div 64), b64_char (c mod 64)] @ b64_encode rest"
| "b64_encode [a, b] =
     [b64_char (a div 4), b64_char (a mod 4 * 16 + b div 16), b64_char (b mod 16 * 4), 61]"
| "b64_encode [a] = [b64_char (a div 4), b64_char (a mod 4 * 16), 61, 61]"
| "b64_encode [] = []"

text \<open>\<open>btoa\<close> throws an InvalidCharacterError when a code unit is above 255.\<close>

definition btoa :: "jstring \<Rightarrow> thrown + jstring" where
  "btoa s =
     (if list_all (\<lambda>c. c < 256) s then Inr (b64_encode s)
      else Inl (Thrown (Some (js ''InvalidCharacterError''))))"

fun b64_decode :: "nat list \<Rightarrow> jstring" where
  "b64_decode (a # b # c # d # rest) =
     [a * 4 + b div 16, b mod 16 * 16 + c div 4, c mod 4 * 64 + d] @ b64_decode rest"
| "b64_decode [a, b, c] = [a * 4 + b div 16, b mod 16 * 16 + c div 4]"
| "b64_decode [a, b] = [a * 4 + b div 16]"
| "b64_decode rest = []"

text \<open>
  \<open>atob\<close> (the forgiving-base64 decode of the HTML standard): ASCII whitespace is removed,
  then one or two closing \<open>=\<close> when the length is a multiple of four; a length of one
  above a multiple of four, or a character outside the alphabet, throws.
\<close>

definition is_ascii_whitespace :: "nat \<Rightarrow> bool" where
  "is_ascii_whitespace c = (c = 9 \<or> c = 10 \<or> c = 12 \<or> c = 13 \<or> c = 32)"

definition strip_padding :: "jstring \<Rightarrow> jstring" where
  "strip_padding d =
     (if length d mod 4 = 0 \<and> d \<noteq> [] \<and> last d = 61 then
        (if butlast d \<noteq> [] \<and> last (butlast d) = 61 then butlast (butlast d) else butlast d)
      else d)"

definition atob :: "jstring \<Rightarrow> thrown + jstring" where
  "atob s =
     (let d = strip_padding (filter (\<lambda>c. \<not> is_ascii_whitespace c) s)
      in if length d mod 4 = 1 then Inl (Thrown (Some (js ''InvalidCharacterError'')))
         else
           (case those (map b64_value d) of
              None \<Rightarrow> Inl (Thrown (Some (js ''InvalidCharacterError'')))
            | Some vs \<Rightarrow> Inr (b64_decode vs)))"

text \<open>
  The link \<open>handleShare\<close> builds carries the Base64 text as the value of \<open>plan\<close>. Reading a
  query value (\<open>searchParams.get\<close>) turns every \<open>+\<close> into a space; the other characters of
  the Base64 alphabet are read as they are.
\<close>

definition query_value :: "jstring \<Rightarrow> jstring" where
  "query_value raw = map (\<lambda>c. if c = 43 then 32 else c) raw"

section \<open>The page (page.tsx)\<close>

definition formSchema :: "(jstring \<times> zod) list" where
  "formSchema =
    [(js ''destination'', ZMin 1 ZString),
     (js ''startDate'', ZDate),
     (js ''days'', ZDefault (Num 3) (ZMax 21 (ZMin 1 ZCoerceNumber))),
     (js ''budget'', ZDefault (Str (js ''Medium'')) (ZEnum [js ''Low'', js ''Medium'', js ''Luxury''])),
     (js ''travelers'', ZDefault (Num 2) (ZMin 1 ZCoerceNumber)),
     (js ''interests'', ZMin 1 ZString),
     (js ''pace'', ZDefault (Str (js ''Balanced'')) (ZEnum [js ''Relaxed'', js ''Balanced'', js ''Intense''])),
     (js ''mustInclude'', ZOptional ZString),
     (js ''avoid'', ZOptional ZString),
     (js ''notes'', ZOptional ZString)]"

definition defaultValues :: jsval where
  "defaultValues =
     Obj [(js ''destination'', Str []),
          (js ''days'', Num 3),
          (js ''budget'', Str (js ''Medium'')),
          (js ''travelers'', Num 2),
          (js ''interests'', Str []),
          (js ''pace'', Str (js ''Balanced'')),
          (js ''mustInclude'', Str []),
          (js ''avoid'', Str []),
          (js ''notes'', Str [])]"

record toast =
  variant :: jstring
  title :: jstring
  description :: jstring

text \<open>What the page does to the world outside its own state, in the order it does it.\<close>

datatype effect =
    ConsoleError jstring
  | ToastShown toast
  | GetItem jstring
  | SetItem jstring jstring
  | RemoveItem jstring
  | ActionCalled jsval
  | ClipboardWrite jstring

text \<open>
  The state: the two \<open>useState\<close> cells \<open>loading\<close> and \<open>itinerary\<close>, the values of the form,
  the browser's \<open>localStorage\<close>, the calls of the server action that have not come back,
  and the effects so far.
\<close>

record page =
  loading :: bool
  itinerary :: "Output option"
  form :: jsval
  localStorage :: "(jstring \<times> jstring) list"
  in_flight :: "jsval list"
  effects :: "effect list"

definition initial_page :: "(jstring \<times> jstring) list \<Rightarrow> page" where
  "initial_page stored =
     \<lparr> loading = False, itinerary = None, form = defaultValues, localStorage = stored,
       in_flight = [], effects = [] \<rparr>"

text \<open>The store keeps one value for a key.\<close>

fun store_put :: "jstring \<Rightarrow> jstring \<Rightarrow> (jstring \<times> jstring) list \<Rightarrow> (jstring \<times> jstring) list" where
  "store_put k v [] = [(k, v)]"
| "store_put k v ((k', v') # kvs) = (if k' = k then (k, v) # kvs else (k', v') # store_put k v kvs)"

definition show_toast :: "toast \<Rightarrow> page \<Rightarrow> page" where
  "show_toast t s = s\<lparr>effects := effects s @ [ToastShown t]\<rparr>"

definition console_error :: "jstring \<Rightarrow> page \<Rightarrow> page" where
  "console_error label s = s\<lparr>effects := effects s @ [ConsoleError label]\<rparr>"

definition localStorage_setItem :: "jstring \<Rightarrow> jstring \<Rightarrow> page \<Rightarrow> page" where
  "localStorage_setItem k v s =
     s\<lparr>localStorage := store_put k v (localStorage s), effects := effects s @ [SetItem k v]\<rparr>"

definition localStorage_getItem :: "jstring \<Rightarrow> page \<Rightarrow> jstring option \<times> page" where
  "localStorage_getItem k s = (map_of (localStorage s) k, s\<lparr>effects := effects s @ [GetItem k]\<rparr>)"

definition localStorage_removeItem :: "jstring \<Rightarrow> page \<Rightarrow> page" where
  "localStorage_removeItem k s =
     s\<lparr>localStorage := filter (\<lambda>kv. fst kv \<noteq> k) (localStorage s), effects := effects s @ [RemoveItem k]\<rparr>"

subsection \<open>generateItinerary\<close>

text \<open>
  The call of the server action comes back with the action's result, or is rejected
  (the catch block of \<open>generateItinerary\<close> is for that, and for a throw of \<open>format\<close>).
\<close>

datatype outcome = Rejected | Resolved action_result

text \<open>
  \<open>generateItinerary\<close> up to its \<open>await\<close>: the second component is the input of the call
  it has made, or nothing when \<open>format\<close> threw and the function has ended in its catch
  and finally blocks.
\<close>

definition generateItinerary_begin :: "host \<Rightarrow> jsval \<Rightarrow> page \<Rightarrow> page \<times> jsval option" where
  "generateItinerary_begin h data s =
     (let s1 = s\<lparr>loading := True, itinerary := None\<rparr>;
          s2 = localStorage_setItem (js ''last_itinerary_input'') (text_of (JSON_stringify h data)) s1
      in case date_fns_format h (get data (js ''startDate'')) of
           Inl e \<Rightarrow>
             ((show_toast \<lparr>variant = js ''destructive'',
                           title = js ''An unexpected error occurred'',
                           description = js ''Please try again later.''\<rparr> s2)\<lparr>loading := False\<rparr>,
              None)
         | Inr startDate \<Rightarrow>
             (let input = Obj (set_prop_list (own_properties data) (js ''startDate'') (Str startDate))
              in (s2\<lparr>in_flight := in_flight s2 @ [input],
                     effects := effects s2 @ [ActionCalled input]\<rparr>,
                  Some input)))"

text \<open>\<open>generateItinerary\<close> from the moment call number \<open>i\<close> of those in flight comes back.\<close>

definition generateItinerary_settle :: "nat \<Rightarrow> outcome \<Rightarrow> page \<Rightarrow> page" where
  "generateItinerary_settle i result s =
     (let s1 = (case result of
                  Resolved (Error e) \<Rightarrow>
                    show_toast \<lparr>variant = js ''destructive'',
                                title = js ''Error Generating Itinerary'',
                                description = e\<rparr> s
                | Resolved (Itinerary out) \<Rightarrow> s\<lparr>itinerary := Some out\<rparr>
                | Rejected \<Rightarrow>
                    show_toast \<lparr>variant = js ''destructive'',
                                title = js ''An unexpected error occurred'',
                                description = js ''Please try again later.''\<rparr> s)
      in s1\<lparr>loading := False, in_flight := take i (in_flight s1) @ drop (Suc i) (in_flight s1)\<rparr>)"

text \<open>The whole call, for a server that answers the input with \<open>respond\<close>.\<close>

definition generateItinerary :: "host \<Rightarrow> (jsval \<Rightarrow> outcome) \<Rightarrow> jsval \<Rightarrow> page \<Rightarrow> page" where
  "generateItinerary h respond data s =
     (case generateItinerary_begin h data s of
        (s1, None) \<Rightarrow> s1
      | (s1, Some input) \<Rightarrow> generateItinerary_settle (length (in_flight s1) - 1) (respond input) s1)"

text \<open>What a server running the action of actions.ts answers when the call reaches it.\<close>

definition action_response :: "host \<Rightarrow> backend \<Rightarrow> server \<Rightarrow> jsval \<Rightarrow> outcome" where
  "action_response h b sv input =
     (case fst (generateItineraryAction h b input sv) of
        Inr result \<Rightarrow> Resolved result
      | Inl e \<Rightarrow> Rejected)"

subsection \<open>The effect that loads a plan\<close>

definition decode_plan :: "jstring \<Rightarrow> thrown + jsval" where
  "decode_plan planParam = (case atob planParam of Inl e \<Rightarrow> Inl e | Inr t \<Rightarrow> JSON_parse t)"

text \<open>
  The first half of the effect: \<open>dataToLoad\<close>, \<open>null\<close> when there is nothing to load. The
  parameter is what \<open>searchParams.get('plan')\<close> returned.
\<close>

definition dataToLoad :: "jstring option \<Rightarrow> page \<Rightarrow> jsval \<times> page" where
  "dataToLoad planParam s =
     (if planParam \<noteq> None \<and> planParam \<noteq> Some [] then
        (case decode_plan (case planParam of Some p \<Rightarrow> p | None \<Rightarrow> []) of
           Inl e \<Rightarrow> (Null, console_error (js ''Failed to parse plan from URL'') s)
         | Inr v \<Rightarrow> (v, s))
      else
        (case localStorage_getItem (js ''last_itinerary_input'') s of
           (savedData, s1) \<Rightarrow>
             (case savedData of
                None \<Rightarrow> (Null, s1)
              | Some t \<Rightarrow>
                  if t = [] then (Null, s1)
                  else
                    (case JSON_parse t of
                       Inl e \<Rightarrow> (Null, console_error (js ''Failed to parse plan from localStorage'') s1)
                     | Inr v \<Rightarrow> (v, s1)))))"

text \<open>
  The second half: the date string of a loaded record is turned back into a Date,
  \<open>form.reset\<close> is called with the record, and \<open>generateItinerary\<close> is called with it when it
  has a destination.
\<close>

definition revive :: "host \<Rightarrow> jsval \<Rightarrow> jsval" where
  "revive h d =
     (if truthy (get d (js ''startDate''))
      then set_prop d (js ''startDate'') (new_Date h (get d (js ''startDate'')))
      else d)"

definition useEffect_load :: "host \<Rightarrow> jstring option \<Rightarrow> page \<Rightarrow> page \<times> jsval option" where
  "useEffect_load h planParam s =
     (case dataToLoad planParam s of
        (d, s1) \<Rightarrow>
          if truthy d then
            (let d1 = revive h d;
                 s2 = s1\<lparr>form := form_reset h (form s1) d1\<rparr>
             in if truthy (get d1 (js ''destination'')) then generateItinerary_begin h d1 s2
                else (s2, None))
          else (s1, None))"

subsection \<open>Share, clear, submit\<close>

text \<open>An exception that \<open>handleShare\<close> does not catch ends it: the result is \<open>Inl\<close>.\<close>

definition handleShare :: "host \<Rightarrow> jstring \<Rightarrow> jstring \<Rightarrow> page \<Rightarrow> thrown + page" where
  "handleShare h origin pathname s =
     (let jsonString = text_of (JSON_stringify h (form s))
      in case btoa jsonString of
           Inl e \<Rightarrow> Inl e
         | Inr base64String \<Rightarrow>
             (let url = origin @ pathname @ js ''?plan='' @ base64String
              in Inr (show_toast \<lparr>variant = js ''default'',
                                    title = js ''Link Copied!'',
                                    description = js ''You can now share your trip plan with others.''\<rparr>
                        (s\<lparr>effects := effects s @ [ClipboardWrite url]\<rparr>))))"

definition handleClear :: "host \<Rightarrow> page \<Rightarrow> page" where
  "handleClear h s =
     localStorage_removeItem (js ''last_itinerary_input'')
       (s\<lparr>form := form_reset h (form s) defaultValues, itinerary := None\<rparr>)"

text \<open>
  \<open>form.handleSubmit(generateItinerary)\<close>: the form's values are parsed with \<open>formSchema\<close>;
  when they fit, \<open>generateItinerary\<close> gets the parsed record, otherwise nothing is called.
\<close>

definition handleSubmit :: "host \<Rightarrow> page \<Rightarrow> page \<times> jsval option" where
  "handleSubmit h s =
     (case zobject h formSchema (form s) of
        None \<Rightarrow> (s, None)
      | Some data \<Rightarrow> generateItinerary_begin h data s)"

subsection \<open>The interest badges\<close>

definition INTERESTS :: "jstring list" where
  "INTERESTS = [js ''Beaches'', js ''Food'', js ''Shopping'', js ''History'', js ''Culture'',
     js ''Adventure'', js ''Nature'', js ''Nightlife'', js ''Religious'', js ''Photography'']"

text \<open>
  \<open>toggleInterest\<close> reads the form's \<open>interests\<close> value, computes the new string and
  writes it back. \<open>toggled\<close> is the computation between the read and the write.
\<close>

definition toggled :: "jstring \<Rightarrow> jstring \<Rightarrow> jstring" where
  "toggled interest current =
     (let currentInterests = filter (\<lambda>e. e \<noteq> []) (split current (js '', ''));
          newInterests =
            (if interest \<in> set currentInterests
             then filter (\<lambda>i. i \<noteq> interest) currentInterests
             else currentInterests @ [interest])
      in join newInterests (js '', ''))"

text \<open>
  The form's values are one JavaScript object. Calling \<open>split\<close> on a value that is not
  a string throws a TypeError.
\<close>

definition toggleInterest :: "jstring \<Rightarrow> jsval \<Rightarrow> thrown + jsval" where
  "toggleInterest interest form_values =
     (case get form_values (js ''interests'') of
        Str current \<Rightarrow>
          (case form_values of
             Obj ps \<Rightarrow> Inr (Obj (set_prop_list ps (js ''interests'') (Str (toggled interest current))))
           | _ \<Rightarrow> Inr form_values)
      | _ \<Rightarrow> Inl (Thrown (Some (js ''split is not a function''))))"


subsection \<open>What can happen to the page\<close>

text \<open>
  The effect runs when the page is mounted and again when the search parameters change.
  The submit button is disabled while \<open>loading\<close> holds. A call can only come back while it
  is in flight. An event that cannot happen has no next state.
\<close>

datatype event =
    Load "jstring option"
  | Submit
  | Settle nat outcome
  | Clear
  | Share jstring jstring
  | Toggle jstring
  | Input jstring jsval

fun step :: "host \<Rightarrow> page \<Rightarrow> event \<Rightarrow> page option" where
  "step h s (Load planParam) = Some (fst (useEffect_load h planParam s))"
| "step h s Submit = (if loading s then None else Some (fst (handleSubmit h s)))"
| "step h s (Settle i result) =
     (if i < length (in_flight s) then Some (generateItinerary_settle i result s) else None)"
| "step h s Clear = Some (handleClear h s)"
| "step h s (Share origin pathname) =
     (case handleShare h origin pathname s of Inl e \<Rightarrow> Some s | Inr s1 \<Rightarrow> Some s1)"
| "step h s (Toggle interest) =
     (case toggleInterest interest (form s) of Inl e \<Rightarrow> Some s | Inr f \<Rightarrow> Some (s\<lparr>form := f\<rparr>))"
| "step h s (Input k v) = Some (s\<lparr>form := set_prop (form s) k v\<rparr>)"

fun run :: "host \<Rightarrow> page \<Rightarrow> event list \<Rightarrow> page option" where
  "run h s [] = Some s"
| "run h s (e # es) = (case step h s e of None \<Rightarrow> None | Some s1 \<Rightarrow> run h s1 es)"

text \<open>
  The shape claim C4 gives for an accepted input, in the claim's words: a plain object
  whose \<open>destination\<close>, \<open>startDate\<close> and \<open>interests\<close> are strings, whose \<open>days\<close> is
  absent or a number from 1 to 21, whose \<open>budget\<close> and \<open>pace\<close> are absent or one of the
  three names, whose \<open>travelers\<close> is absent or a number from 1, and whose \<open>mustInclude\<close>,
  \<open>avoid\<close> and \<open>notes\<close> are absent or strings.
\<close>

fun is_string :: "jsval \<Rightarrow> bool" where
  "is_string (Str s) = True"
| "is_string v = False"

fun number_within :: "rat \<Rightarrow> rat option \<Rightarrow> jsval \<Rightarrow> bool" where
  "number_within lo hi (Num r) = (lo \<le> r \<and> (case hi of None \<Rightarrow> True | Some u \<Rightarrow> r \<le> u))"
| "number_within lo hi v = False"

fun one_of :: "jstring list \<Rightarrow> jsval \<Rightarrow> bool" where
  "one_of names (Str s) = (s \<in> set names)"
| "one_of names v = False"

definition accepted_preferences :: "jsval \<Rightarrow> bool" where
  "accepted_preferences v =
     ((case v of Obj ps \<Rightarrow> True | _ \<Rightarrow> False)
      \<and> is_string (get v (js ''destination''))
      \<and> is_string (get v (js ''startDate''))
      \<and> (get v (js ''days'') = Undefined \<or> number_within 1 (Some 21) (get v (js ''days'')))
      \<and> (get v (js ''budget'') = Undefined
           \<or> one_of [js ''Low'', js ''Medium'', js ''Luxury''] (get v (js ''budget'')))
      \<and> (get v (js ''travelers'') = Undefined \<or> number_within 1 None (get v (js ''travelers'')))
      \<and> is_string (get v (js ''interests''))
      \<and> (get v (js ''pace'') = Undefined
           \<or> one_of [js ''Relaxed'', js ''Balanced'', js ''Intense''] (get v (js ''pace'')))
      \<and> (get v (js ''mustInclude'') = Undefined \<or> is_string (get v (js ''mustInclude'')))
      \<and> (get v (js ''avoid'') = Undefined \<or> is_string (get v (js ''avoid'')))
      \<and> (get v (js ''notes'') = Undefined \<or> is_string (get v (js ''notes''))))"

text \<open>The value a defaulted field has after parsing.\<close>

definition or_default :: "jsval \<Rightarrow> jsval \<Rightarrow> jsval" where
  "or_default v d = (if v = Undefined then d else v)"

text \<open>
  A host for worked examples: it knows one date, the first of January 2025 (UTC), and
  its \<open>form.reset\<close> gives every field the values it is given, and the default to a field
  they lack.
\<close>

definition reset_over_defaults :: "jsval \<Rightarrow> jsval \<Rightarrow> jsval" where
  "reset_over_defaults current given =
     foldl (\<lambda>f kv. set_prop f (fst kv) (snd kv)) defaultValues (own_properties given)"

definition example_host :: host where
  "example_host =
     \<lparr> Date_parse = (\<lambda>s. if s = js ''2025-01-01T00:00:00.000Z'' then Some 1735689600000 else None),
       toISOString = (\<lambda>t. if t = 1735689600000 then js ''2025-01-01T00:00:00.000Z'' else []),
       Date_toString = (\<lambda>t. js ''Invalid Date''),
       format_yyyy_MM_dd = (\<lambda>t. if t = 1735689600000 then js ''2025-01-01'' else []),
       StringToNumber = (\<lambda>s. if list_all is_digit s then Some (of_nat (number_of s)) else None),
       form_reset = reset_over_defaults \<rparr>"

text \<open>
  A shared link for worked examples: the Base64 text of a record with the destination
  Goa and the start date of the example host, the record itself, the same record as the
  form holds it, the input of the action for it, and two itineraries.
\<close>

definition goa_plan :: jstring where
  \<open>goa_plan = js ''eyJkZXN0aW5hdGlvbiI6IkdvYSIsInN0YXJ0RGF0ZSI6IjIwMjUtMDEtMDFUMDA6MDA6MDAuMDAwWiJ9''\<close>

definition goa_record :: "(jstring \<times> jsval) list" where
  "goa_record = [(js ''destination'', Str (js ''Goa'')), (js ''startDate'', Str (js ''2025-01-01T00:00:00.000Z''))]"

definition goa_data :: jsval where
  "goa_data = Obj [(js ''destination'', Str (js ''Goa'')), (js ''startDate'', DateV (Some 1735689600000))]"

definition sample_output :: Output where
  "sample_output = \<lparr>summary = js ''Three days in Goa'', plan = [], estimatedBudget = js ''300'', tips = js ''Pack light''\<rparr>"

definition other_output :: Output where
  "other_output = \<lparr>summary = js ''A week in Goa'', plan = [], estimatedBudget = js ''700'', tips = js ''Book early''\<rparr>"

definition goa_request :: jsval where
  "goa_request = Obj [(js ''destination'', Str (js ''Goa'')), (js ''startDate'', Str (js ''2025-01-01''))]"

section \<open>Reading the trace\<close>

fun is_GetItem :: "effect \<Rightarrow> bool" where
  "is_GetItem (GetItem k) = True"
| "is_GetItem e = False"

fun is_Load :: "event \<Rightarrow> bool" where
  "is_Load (Load p) = True"
| "is_Load e = False"

fun is_Settle :: "event \<Rightarrow> bool" where
  "is_Settle (Settle i r) = True"
| "is_Settle e = False"

text \<open>
  Whether an event calls \<open>generateItinerary\<close>: the load effect does when it has a record
  with a destination, a submission does when the form's values fit \<open>formSchema\<close>.
\<close>

fun calls_generateItinerary :: "host \<Rightarrow> page \<Rightarrow> event \<Rightarrow> bool" where
  "calls_generateItinerary h s (Load planParam) =
     (truthy (fst (dataToLoad planParam s))
      \<and> truthy (get (revive h (fst (dataToLoad planParam s))) (js ''destination'')))"
| "calls_generateItinerary h s Submit = (\<not> loading s \<and> zobject h formSchema (form s) \<noteq> None)"
| "calls_generateItinerary h s e = False"

text \<open>
  A run in which every event can happen and the load effect does not call
  \<open>generateItinerary\<close> while a request is outstanding.
\<close>

fun serial_loads :: "host \<Rightarrow> page \<Rightarrow> event list \<Rightarrow> bool" where
  "serial_loads h s [] = True"
| "serial_loads h s (e # es) =
     (case step h s e of
        None \<Rightarrow> False
      | Some s1 \<Rightarrow>
          (is_Load e \<and> calls_generateItinerary h s e \<longrightarrow> in_flight s = []) \<and> serial_loads h s1 es)"

text \<open>
  The result of the most recent call of \<open>generateItinerary\<close> in a run, read off the events:
  nothing from the moment a call starts, the output once its answer is a success, and
  nothing again when the form is cleared. \<open>held\<close> is the value before the run.
\<close>

fun result_after :: "host \<Rightarrow> page \<Rightarrow> event \<Rightarrow> Output option \<Rightarrow> Output option" where
  "result_after h s (Settle i (Resolved (Itinerary out))) held = Some out"
| "result_after h s (Settle i r) held = None"
| "result_after h s Clear held = None"
| "result_after h s e held = (if calls_generateItinerary h s e then None else held)"

fun most_recent_result :: "host \<Rightarrow> page \<Rightarrow> event list \<Rightarrow> Output option \<Rightarrow> Output option" where
  "most_recent_result h s [] held = held"
| "most_recent_result h s (e # es) held =
     (case step h s e of
        None \<Rightarrow> held
      | Some s1 \<Rightarrow> most_recent_result h s1 es (result_after h s e held))"

definition unexpected_error_toast :: toast where
  "unexpected_error_toast =
     \<lparr>variant = js ''destructive'', title = js ''An unexpected error occurred'',
      description = js ''Please try again later.''\<rparr>"

text \<open>
  The error string of the action for a caught value with the message \<open>m\<close>.
\<close>

definition error_message :: "jstring option \<Rightarrow> jstring" where
  "error_message m =
     js ''Failed to generate itinerary: '' @
       (case m of
          None \<Rightarrow> js ''An unknown error occurred.''
        | Some t \<Rightarrow> if t = [] then js ''An unknown error occurred.'' else t)"

text \<open>At most one call in flight, and \<open>loading\<close> set exactly while there is one.\<close>

definition one_at_a_time :: "page \<Rightarrow> bool" where
  "one_at_a_time s = (length (in_flight s) \<le> 1 \<and> loading s = (in_flight s \<noteq> []))"

text \<open>
  Two forms for the shareable link: the defaults with the destination \<open>Tokyo\<close> written in
  Japanese (the code units 26481, 20140), and with the destination \<open>A>B\<close>.
\<close>

definition tokyo_form :: jsval where
  "tokyo_form = set_prop defaultValues (js ''destination'') (Str [26481, 20140])"

definition a_to_b_form :: jsval where
  "a_to_b_form = set_prop defaultValues (js ''destination'') (Str (js ''A>B''))"

section \<open>Toggling an interest twice\<close>

lemma prefix_comma_space:
  "prefix [44, 32] (c # cs) \<longleftrightarrow> c = (44::nat) \<and> (\<exists>r. cs = 32 # r)"
  by (cases cs) auto

lemma split_at_free:
  "\<not> contains e [44, 32] \<Longrightarrow> split_at [44, 32] cur e = [cur @ e]"
proof (induction e arbitrary: cur)
  case Nil
  then show ?case by simp
next
  case (Cons c e)
  then show ?case by simp
qed

lemma split_at_piece:
  "\<not> contains e [44, 32] \<Longrightarrow>
   split_at [44, 32] cur (e @ 44 # 32 # rest) = (cur @ e) # split_at [44, 32] [] rest"
proof (induction e arbitrary: cur)
  case Nil
  then show ?case by simp
next
  case (Cons c e)
  have np: "\<not> prefix [44, 32] (c # e @ 44 # 32 # rest)"
  proof (cases e)
    case Nil
    then show ?thesis by (simp add: prefix_comma_space)
  next
    case (Cons d e')
    with Cons.prems show ?thesis by (simp add: prefix_comma_space)
  qed
  from Cons.prems have "\<not> contains e [44, 32]" by simp
  from Cons.IH [OF this, of "cur @ [c]"] np show ?case by simp
qed

lemma split_at_join:
  "es \<noteq> [] \<Longrightarrow> \<forall>e \<in> set es. \<not> contains e [44, 32] \<Longrightarrow>
   split_at [44, 32] [] (join es [44, 32]) = es"
proof (induction es)
  case Nil
  then show ?case by simp
next
  case (Cons x es)
  show ?case
  proof (cases es)
    case Nil
    with Cons.prems show ?thesis by (simp add: split_at_free)
  next
    case (Cons y ys)
    with Cons.prems Cons.IH show ?thesis
      by (simp add: split_at_piece del: split_at.simps)
  qed
qed

lemma js_comma_space: "js '', '' = [44, 32]"
  by (simp add: js_def)

lemma split_join_entries:
  assumes "\<forall>e \<in> set es. e \<noteq> [] \<and> \<not> contains e [44, 32]"
  shows "filter (\<lambda>e. e \<noteq> []) (split (join es [44, 32]) [44, 32]) = es"
proof (cases es)
  case Nil
  then show ?thesis by (simp add: split_def)
next
  case (Cons x xs)
  with assms have "split_at [44, 32] [] (join es [44, 32]) = es"
    by (intro split_at_join) auto
  moreover from assms have "filter (\<lambda>e. e \<noteq> []) es = es"
    by (induction es) auto
  ultimately show ?thesis by (simp add: split_def)
qed

lemma toggled_on:
  assumes "\<forall>e \<in> set es. e \<noteq> [] \<and> \<not> contains e [44, 32]" and "i \<notin> set es"
  shows "toggled i (join es (js '', '')) = join (es @ [i]) (js '', '')"
  using assms split_join_entries [OF assms(1)]
  by (simp add: toggled_def js_comma_space Let_def)

lemma toggled_off:
  assumes "\<forall>e \<in> set es. e \<noteq> [] \<and> \<not> contains e [44, 32]" and "i \<notin> set es"
    and "i \<noteq> []" and "\<not> contains i [44, 32]"
  shows "toggled i (join (es @ [i]) (js '', '')) = join es (js '', '')"
proof -
  have "\<forall>e \<in> set (es @ [i]). e \<noteq> [] \<and> \<not> contains e [44, 32]"
    using assms by auto
  from split_join_entries [OF this]
  have "filter (\<lambda>e. e \<noteq> []) (split (join (es @ [i]) [44, 32]) [44, 32]) = es @ [i]" .
  moreover from assms(2) have "filter (\<lambda>e. e \<noteq> i) es = es"
    by (induction es) auto
  ultimately show ?thesis
    by (simp add: toggled_def js_comma_space Let_def)
qed

lemma INTERESTS_plain: "i \<in> set INTERESTS \<Longrightarrow> i \<noteq> [] \<and> \<not> contains i [44, 32]"
  by (auto simp: INTERESTS_def js_def)

lemma set_prop_list_back:
  "map_of ps k = Some v \<Longrightarrow> set_prop_list (set_prop_list ps k w) k v = ps"
  by (induction ps) auto

lemma map_of_set_prop_list: "map_of (set_prop_list ps k v) k = Some v"
  by (induction ps) auto

lemma toggleInterest_record:
  "map_of ps (js ''interests'') = Some (Str current) \<Longrightarrow>
   toggleInterest i (Obj ps) = Inr (Obj (set_prop_list ps (js ''interests'') (Str (toggled i current))))"
  by (simp add: toggleInterest_def)

text \<open>
  Claim C10. Let the form's \<open>interests\<close> value be the \<open>", "\<close>-join of entries that are
  non-empty and hold no \<open>", "\<close> themselves, none of them the interest \<open>i\<close> of the badge
  list. Then \<open>toggleInterest(i)\<close> writes the string with \<open>i\<close> appended as the last entry into
  the form, and \<open>toggleInterest(i)\<close> on that form removes exactly that entry: the form is
  back at its original values, the other entries in their order. The same holds of the
  page: two clicks on the badge leave it as it was.
\<close>

theorem toggleInterest_twice:
  assumes "i \<in> set INTERESTS"
    and "\<forall>e \<in> set es. e \<noteq> [] \<and> \<not> contains e (js '', '')"
    and "i \<notin> set es"
    and "map_of ps (js ''interests'') = Some (Str (join es (js '', '')))"
  shows "toggleInterest i (Obj ps) =
           Inr (Obj (set_prop_list ps (js ''interests'') (Str (join (es @ [i]) (js '', '')))))
       \<and> toggleInterest i (Obj (set_prop_list ps (js ''interests'') (Str (join (es @ [i]) (js '', '')))))
           = Inr (Obj ps)
       \<and> (form s = Obj ps \<longrightarrow> run h s [Toggle i, Toggle i] = Some s)
       \<and> toggled i (join es (js '', '')) = join (es @ [i]) (js '', '')
       \<and> toggled i (toggled i (join es (js '', ''))) = join es (js '', '')"
proof -
  from assms(2) have es: "\<forall>e \<in> set es. e \<noteq> [] \<and> \<not> contains e [44, 32]"
    by (simp add: js_comma_space)
  from INTERESTS_plain [OF assms(1)] have i: "i \<noteq> []" "\<not> contains i [44, 32]"
    by simp_all
  note on = toggled_on [OF es assms(3)]
  note off = toggled_off [OF es assms(3) i]
  let ?qs = "set_prop_list ps (js ''interests'') (Str (join (es @ [i]) (js '', '')))"
  have 1: "toggleInterest i (Obj ps) = Inr (Obj ?qs)"
    using toggleInterest_record [OF assms(4), of i] by (simp only: on)
  have "map_of ?qs (js ''interests'') = Some (Str (join (es @ [i]) (js '', '')))"
    by (rule map_of_set_prop_list)
  from toggleInterest_record [OF this, of i]
  have 2: "toggleInterest i (Obj ?qs) = Inr (Obj ps)"
    by (simp only: off set_prop_list_back [OF assms(4)])
  have 3: "run h s [Toggle i, Toggle i] = Some s" if "form s = Obj ps"
    using that 1 2 by simp
  from 1 2 3 on off show ?thesis by simp
qed

theorem toggleInterest_twice_witness:
  "toggleInterest (js ''Food'')
      (Obj [(js ''destination'', Str (js ''Goa'')), (js ''interests'', Str (js ''Beaches, Nature'')),
            (js ''notes'', Str [])]) =
     Inr (Obj [(js ''destination'', Str (js ''Goa'')), (js ''interests'', Str (js ''Beaches, Nature, Food'')),
               (js ''notes'', Str [])])
   \<and> toggleInterest (js ''Food'')
      (Obj [(js ''destination'', Str (js ''Goa'')), (js ''interests'', Str (js ''Beaches, Nature, Food'')),
            (js ''notes'', Str [])]) =
     Inr (Obj [(js ''destination'', Str (js ''Goa'')), (js ''interests'', Str (js ''Beaches, Nature'')),
               (js ''notes'', Str [])])"
proof -
  let ?ps = "[(js ''destination'', Str (js ''Goa'')), (js ''interests'', Str (js ''Beaches, Nature'')),
              (js ''notes'', Str [])]"
  have a: "js ''Food'' \<in> set INTERESTS"
    by (simp add: INTERESTS_def)
  have b: "\<forall>e \<in> set [js ''Beaches'', js ''Nature'']. e \<noteq> [] \<and> \<not> contains e (js '', '')"
    by (simp add: js_def)
  have c: "js ''Food'' \<notin> set [js ''Beaches'', js ''Nature'']"
    by (simp add: js_def)
  have j: "join [js ''Beaches'', js ''Nature''] (js '', '') = js ''Beaches, Nature''"
    by (simp add: js_def)
  have k: "join ([js ''Beaches'', js ''Nature''] @ [js ''Food'']) (js '', '') = js ''Beaches, Nature, Food''"
    by (simp add: js_def)
  have d: "map_of ?ps (js ''interests'') = Some (Str (join [js ''Beaches'', js ''Nature''] (js '', '')))"
    by (simp add: js_def)
  have q: "set_prop_list ?ps (js ''interests'') (Str (js ''Beaches, Nature, Food'')) =
      [(js ''destination'', Str (js ''Goa'')), (js ''interests'', Str (js ''Beaches, Nature, Food'')),
       (js ''notes'', Str [])]"
    by (simp add: js_def)
  from toggleInterest_twice [OF a b c d]
  have "toggleInterest (js ''Food'') (Obj ?ps) =
           Inr (Obj (set_prop_list ?ps (js ''interests'') (Str (js ''Beaches, Nature, Food''))))
       \<and> toggleInterest (js ''Food'') (Obj (set_prop_list ?ps (js ''interests'') (Str (js ''Beaches, Nature, Food''))))
           = Inr (Obj ?ps)"
    unfolding k by blast
  then show ?thesis
    unfolding q .
qed

section \<open>The input schema\<close>

lemma zfields_accepts:
  "(\<exists>out. zfields h shape ps = Some out) = list_all (\<lambda>(k, z). zparse h z (get (Obj ps) k) \<noteq> None) shape"
  by (induction shape) (auto split: option.splits)

lemma zfields_keys:
  "zfields h shape ps = Some out \<Longrightarrow> fst ` set out \<subseteq> fst ` set shape"
proof (induction shape arbitrary: out)
  case Nil
  then show ?case by simp
next
  case (Cons kz shape)
  obtain k z where kz: "kz = (k, z)" by (cases kz)
  from Cons.prems kz obtain v rest where
    rest: "zfields h shape ps = Some rest" and out: "out = rest \<or> out = (k, v) # rest"
    by (auto split: option.splits if_splits)
  from out have "fst ` set out \<subseteq> insert k (fst ` set rest)" by auto
  also from Cons.IH [OF rest] have "\<dots> \<subseteq> insert k (fst ` set shape)" by blast
  finally show ?case using kz by simp
qed

lemma zfields_value:
  "zfields h shape ps = Some out \<Longrightarrow> distinct (map fst shape) \<Longrightarrow> (k, z) \<in> set shape \<Longrightarrow>
   zparse h z (get (Obj ps) k) = Some (get (Obj out) k)"
proof (induction shape arbitrary: out)
  case Nil
  then show ?case by simp
next
  case (Cons kz shape)
  obtain k' z' where kz: "kz = (k', z')" by (cases kz)
  from Cons.prems(1) kz obtain v rest where
    v: "zparse h z' (get (Obj ps) k') = Some v" and rest: "zfields h shape ps = Some rest"
    and out: "out = (if v = Undefined \<and> map_of ps k' = None then rest else (k', v) # rest)"
    by (auto split: option.splits)
  from Cons.prems(2) kz have k'_new: "k' \<notin> fst ` set shape" and dist: "distinct (map fst shape)"
    by simp_all
  from zfields_keys [OF rest] k'_new have "k' \<notin> fst ` set rest" by blast
  then have absent: "map_of rest k' = None"
    by (simp add: map_of_eq_None_iff)
  show ?case
  proof (cases "k = k'")
    case True
    with Cons.prems(3) kz k'_new have "z = z'" by force
    with True v out absent show ?thesis by simp
  next
    case False
    with Cons.prems(3) kz have mem: "(k, z) \<in> set shape" by simp
    from Cons.IH [OF rest dist mem] out False show ?thesis by simp
  qed
qed

lemma zparse_string: "(zparse h ZString x \<noteq> None) = is_string x"
  by (cases x) simp_all

lemma zparse_optional_string:
  "(zparse h (ZOptional ZString) x \<noteq> None) = (x = Undefined \<or> is_string x)"
  by (cases x) simp_all

lemma zparse_bounded:
  "(zparse h (ZDefault (Num d) (ZMax hi (ZMin lo ZNumber))) x \<noteq> None) =
     (if x = Undefined then lo \<le> d \<and> d \<le> hi else number_within lo (Some hi) x)"
  by (cases x) simp_all

lemma zparse_at_least:
  "(zparse h (ZDefault (Num d) (ZMin lo ZNumber)) x \<noteq> None) =
     (if x = Undefined then lo \<le> d else number_within lo None x)"
  by (cases x) simp_all

lemma zparse_enum:
  "(zparse h (ZDefault (Str d) (ZEnum names)) x \<noteq> None) =
     (if x = Undefined then d \<in> set names else one_of names x)"
  by (cases x) simp_all

lemma zparse_default_value:
  "zparse h (ZDefault d z) x = Some y \<Longrightarrow> zparse h z (or_default x d) = Some y"
  by (simp add: or_default_def split: if_splits)

lemma zparse_bounded_value:
  "zparse h (ZMax hi (ZMin lo ZNumber)) x = Some y \<Longrightarrow> y = x"
  by (cases x) (auto split: if_splits)

lemma zparse_at_least_value: "zparse h (ZMin lo ZNumber) x = Some y \<Longrightarrow> y = x"
  by (cases x) (auto split: if_splits)

lemma zparse_enum_value: "zparse h (ZEnum names) x = Some y \<Longrightarrow> y = x"
  by (cases x) (auto split: if_splits)

lemma zparse_string_value: "zparse h ZString x = Some y \<Longrightarrow> y = x"
  by (cases x) auto

lemma input_schema_distinct: "distinct (map fst GeneratePersonalizedItineraryInputSchema)"
  by (simp add: GeneratePersonalizedItineraryInputSchema_def js_def)

lemma input_schema_accepts:
  "(\<exists>out. zobject h GeneratePersonalizedItineraryInputSchema v = Some out) = accepted_preferences v"
proof (cases v)
  case (Obj ps)
  have "(\<exists>out. zobject h GeneratePersonalizedItineraryInputSchema v = Some out) =
        (\<exists>out. zfields h GeneratePersonalizedItineraryInputSchema ps = Some out)"
    using Obj by (auto simp: zobject_def)
  also have "\<dots> = accepted_preferences v"
    unfolding zfields_accepts accepted_preferences_def GeneratePersonalizedItineraryInputSchema_def
    using Obj
    by (simp only: list.pred_inject prod.case zparse_string zparse_optional_string zparse_bounded
          zparse_at_least zparse_enum jsval.case)
       (simp add: js_def)
  finally show ?thesis .
qed (simp_all add: zobject_def accepted_preferences_def)


lemma zparse_optional_string_value: "zparse h (ZOptional ZString) x = Some y \<Longrightarrow> y = x"
  by (cases x) (auto split: if_splits)

lemma input_schema_member:
  "zobject h GeneratePersonalizedItineraryInputSchema v = Some out \<Longrightarrow>
   (k, z) \<in> set GeneratePersonalizedItineraryInputSchema \<Longrightarrow>
   zparse h z (get v k) = Some (get out k)"
proof -
  assume a: "zobject h GeneratePersonalizedItineraryInputSchema v = Some out"
    and m: "(k, z) \<in> set GeneratePersonalizedItineraryInputSchema"
  from a obtain ps fs where v: "v = Obj ps" and out: "out = Obj fs"
    and fs: "zfields h GeneratePersonalizedItineraryInputSchema ps = Some fs"
    by (cases v) (auto simp: zobject_def)
  from zfields_value [OF fs input_schema_distinct m] v out show ?thesis by simp
qed

text \<open>
  Claim C4. The input schema of the flow accepts a value exactly when it has the shape
  \<open>accepted_preferences\<close>; every other value is rejected. In the parsed record, \<open>days\<close>,
  \<open>budget\<close>, \<open>travelers\<close> and \<open>pace\<close> hold 3, Medium, 2 and Balanced when the input
  leaves them out, and every other field holds the input's value.
\<close>

theorem input_schema_exact:
  "((\<exists>out. zobject h GeneratePersonalizedItineraryInputSchema v = Some out) = accepted_preferences v)
   \<and> (\<forall>out. zobject h GeneratePersonalizedItineraryInputSchema v = Some out \<longrightarrow>
          get out (js ''destination'') = get v (js ''destination'')
        \<and> get out (js ''startDate'') = get v (js ''startDate'')
        \<and> get out (js ''days'') = or_default (get v (js ''days'')) (Num 3)
        \<and> get out (js ''budget'') = or_default (get v (js ''budget'')) (Str (js ''Medium''))
        \<and> get out (js ''travelers'') = or_default (get v (js ''travelers'')) (Num 2)
        \<and> get out (js ''interests'') = get v (js ''interests'')
        \<and> get out (js ''pace'') = or_default (get v (js ''pace'')) (Str (js ''Balanced''))
        \<and> get out (js ''mustInclude'') = get v (js ''mustInclude'')
        \<and> get out (js ''avoid'') = get v (js ''avoid'')
        \<and> get out (js ''notes'') = get v (js ''notes''))"
proof (intro conjI allI impI)
  show "(\<exists>out. zobject h GeneratePersonalizedItineraryInputSchema v = Some out) = accepted_preferences v"
    by (rule input_schema_accepts)
next
  fix out assume a: "zobject h GeneratePersonalizedItineraryInputSchema v = Some out"
  note m = input_schema_member [OF a]
  have "zparse h ZString (get v (js ''destination'')) = Some (get out (js ''destination''))"
    by (rule m) (simp add: GeneratePersonalizedItineraryInputSchema_def)
  then show "get out (js ''destination'') = get v (js ''destination'')"
    by (rule zparse_string_value)
  have "zparse h ZString (get v (js ''startDate'')) = Some (get out (js ''startDate''))"
    by (rule m) (simp add: GeneratePersonalizedItineraryInputSchema_def)
  then show "get out (js ''startDate'') = get v (js ''startDate'')"
    by (rule zparse_string_value)
  have "zparse h (ZDefault (Num 3) (ZMax 21 (ZMin 1 ZNumber))) (get v (js ''days''))
          = Some (get out (js ''days''))"
    by (rule m) (simp add: GeneratePersonalizedItineraryInputSchema_def)
  then show "get out (js ''days'') = or_default (get v (js ''days'')) (Num 3)"
    by (intro zparse_bounded_value zparse_default_value)
  have "zparse h (ZDefault (Str (js ''Medium'')) (ZEnum [js ''Low'', js ''Medium'', js ''Luxury'']))
          (get v (js ''budget'')) = Some (get out (js ''budget''))"
    by (rule m) (simp add: GeneratePersonalizedItineraryInputSchema_def)
  then show "get out (js ''budget'') = or_default (get v (js ''budget'')) (Str (js ''Medium''))"
    by (intro zparse_enum_value zparse_default_value)
  have "zparse h (ZDefault (Num 2) (ZMin 1 ZNumber)) (get v (js ''travelers''))
          = Some (get out (js ''travelers''))"
    by (rule m) (simp add: GeneratePersonalizedItineraryInputSchema_def)
  then show "get out (js ''travelers'') = or_default (get v (js ''travelers'')) (Num 2)"
    by (intro zparse_at_least_value zparse_default_value)
  have "zparse h ZString (get v (js ''interests'')) = Some (get out (js ''interests''))"
    by (rule m) (simp add: GeneratePersonalizedItineraryInputSchema_def)
  then show "get out (js ''interests'') = get v (js ''interests'')"
    by (rule zparse_string_value)
  have "zparse h (ZDefault (Str (js ''Balanced'')) (ZEnum [js ''Relaxed'', js ''Balanced'', js ''Intense'']))
          (get v (js ''pace'')) = Some (get out (js ''pace''))"
    by (rule m) (simp add: GeneratePersonalizedItineraryInputSchema_def)
  then show "get out (js ''pace'') = or_default (get v (js ''pace'')) (Str (js ''Balanced''))"
    by (intro zparse_enum_value zparse_default_value)
  have "zparse h (ZOptional ZString) (get v (js ''mustInclude'')) = Some (get out (js ''mustInclude''))"
    by (rule m) (simp add: GeneratePersonalizedItineraryInputSchema_def)
  then show "get out (js ''mustInclude'') = get v (js ''mustInclude'')"
    by (rule zparse_optional_string_value)
  have "zparse h (ZOptional ZString) (get v (js ''avoid'')) = Some (get out (js ''avoid''))"
    by (rule m) (simp add: GeneratePersonalizedItineraryInputSchema_def)
  then show "get out (js ''avoid'') = get v (js ''avoid'')"
    by (rule zparse_optional_string_value)
  have "zparse h (ZOptional ZString) (get v (js ''notes'')) = Some (get out (js ''notes''))"
    by (rule m) (simp add: GeneratePersonalizedItineraryInputSchema_def)
  then show "get out (js ''notes'') = get v (js ''notes'')"
    by (rule zparse_optional_string_value)
qed

theorem input_schema_exact_witness:
  "zobject example_host GeneratePersonalizedItineraryInputSchema
     (Obj [(js ''destination'', Str (js ''Goa'')), (js ''startDate'', Str (js ''2025-01-01'')),
           (js ''interests'', Str (js ''Food'')), (js ''days'', Num 5)])
   = Some (Obj [(js ''destination'', Str (js ''Goa'')), (js ''startDate'', Str (js ''2025-01-01'')),
           (js ''days'', Num 5), (js ''budget'', Str (js ''Medium'')), (js ''travelers'', Num 2),
           (js ''interests'', Str (js ''Food'')), (js ''pace'', Str (js ''Balanced''))])
   \<and> accepted_preferences
     (Obj [(js ''destination'', Str (js ''Goa'')), (js ''startDate'', Str (js ''2025-01-01'')),
           (js ''interests'', Str (js ''Food'')), (js ''days'', Num 5)])
   \<and> \<not> accepted_preferences
     (Obj [(js ''destination'', Str (js ''Goa'')), (js ''startDate'', Str (js ''2025-01-01'')),
           (js ''interests'', Str (js ''Food'')), (js ''days'', Num 22)])
   \<and> zobject example_host GeneratePersonalizedItineraryInputSchema
     (Obj [(js ''destination'', Str (js ''Goa'')), (js ''startDate'', Str (js ''2025-01-01'')),
           (js ''interests'', Str (js ''Food'')), (js ''days'', Num 22)]) = None"
proof -
  let ?ok = "Obj [(js ''destination'', Str (js ''Goa'')), (js ''startDate'', Str (js ''2025-01-01'')),
           (js ''interests'', Str (js ''Food'')), (js ''days'', Num 5)]"
  let ?bad = "Obj [(js ''destination'', Str (js ''Goa'')), (js ''startDate'', Str (js ''2025-01-01'')),
           (js ''interests'', Str (js ''Food'')), (js ''days'', Num 22)]"
  have run: "zobject example_host GeneratePersonalizedItineraryInputSchema ?ok
     = Some (Obj [(js ''destination'', Str (js ''Goa'')), (js ''startDate'', Str (js ''2025-01-01'')),
           (js ''days'', Num 5), (js ''budget'', Str (js ''Medium'')), (js ''travelers'', Num 2),
           (js ''interests'', Str (js ''Food'')), (js ''pace'', Str (js ''Balanced''))])"
    by (simp add: zobject_def GeneratePersonalizedItineraryInputSchema_def js_def)
  have bad: "\<not> accepted_preferences ?bad"
    by (simp add: accepted_preferences_def js_def)
  from input_schema_exact [of example_host ?ok] run have ok: "accepted_preferences ?ok"
    by simp
  from input_schema_exact [of example_host ?bad] bad
  have "zobject example_host GeneratePersonalizedItineraryInputSchema ?bad = None"
    by (cases "zobject example_host GeneratePersonalizedItineraryInputSchema ?bad") auto
  with run ok bad show ?thesis by simp
qed

section \<open>Loading a shared plan\<close>

lemma begin_form: "form (fst (generateItinerary_begin h data s)) = form s"
  by (simp add: generateItinerary_begin_def localStorage_setItem_def show_toast_def Let_def
      split: sum.splits)

lemma begin_effects_grow:
  "effects (fst (generateItinerary_begin h data s)) \<noteq> effects s"
  by (simp add: generateItinerary_begin_def localStorage_setItem_def show_toast_def Let_def
      split: sum.splits)

lemma get_set_prop_list_other:
  "k \<noteq> k' \<Longrightarrow> map_of (set_prop_list ps k' v) k = map_of ps k"
  by (induction ps) auto

lemma revive_other: "k \<noteq> js ''startDate'' \<Longrightarrow> get (revive h d) k = get d k"
  by (cases d) (simp_all add: revive_def get_set_prop_list_other)

lemma destination_not_startDate: "js ''destination'' \<noteq> js ''startDate''"
  by (simp add: js_def)

lemma dataToLoad_plan:
  "p \<noteq> [] \<Longrightarrow> dataToLoad (Some p) s =
     (case decode_plan p of
        Inl e \<Rightarrow> (Null, console_error (js ''Failed to parse plan from URL'') s)
      | Inr v \<Rightarrow> (v, s))"
  by (simp add: dataToLoad_def)

lemma load_decoded_record:
  assumes "p \<noteq> []" and "decode_plan p = Inr (Obj ps)"
  shows "useEffect_load h (Some p) s =
           (if truthy (get (Obj ps) (js ''destination''))
            then generateItinerary_begin h (revive h (Obj ps)) (s\<lparr>form := form_reset h (form s) (revive h (Obj ps))\<rparr>)
            else (s\<lparr>form := form_reset h (form s) (revive h (Obj ps))\<rparr>, None))"
proof -
  have d: "get (revive h (Obj ps)) (js ''destination'') = get (Obj ps) (js ''destination'')"
    by (rule revive_other) (rule destination_not_startDate)
  show ?thesis
    using assms by (simp add: useEffect_load_def dataToLoad_plan d Let_def)
qed

text \<open>
  Claim C8. When the page loads with a non-empty \<open>plan\<close> parameter that decodes to a
  record, \<open>form.reset\<close> is called with the decoded record (its start date turned back
  into a Date) and gives the form its new values, and \<open>generateItinerary\<close> is called with
  the record exactly when the record's \<open>destination\<close> is truthy: for a string, when it is
  non-empty; never when it is absent.
\<close>

theorem plan_load_resets_and_triggers:
  assumes "p \<noteq> []" and "decode_plan p = Inr (Obj ps)"
  shows "form (fst (useEffect_load h (Some p) s)) = form_reset h (form s) (revive h (Obj ps))
       \<and> useEffect_load h (Some p) s =
           (if truthy (get (Obj ps) (js ''destination''))
            then generateItinerary_begin h (revive h (Obj ps)) (s\<lparr>form := form_reset h (form s) (revive h (Obj ps))\<rparr>)
            else (s\<lparr>form := form_reset h (form s) (revive h (Obj ps))\<rparr>, None))
       \<and> truthy (get (Obj ps) (js ''destination'')) =
           (case map_of ps (js ''destination'') of
              None \<Rightarrow> False
            | Some (Str d) \<Rightarrow> d \<noteq> []
            | Some v \<Rightarrow> truthy v)
       \<and> effects (fst (generateItinerary_begin h (revive h (Obj ps)) (s\<lparr>form := form_reset h (form s) (revive h (Obj ps))\<rparr>)))
           \<noteq> effects (s\<lparr>form := form_reset h (form s) (revive h (Obj ps))\<rparr>)"
proof -
  note run = load_decoded_record [OF assms, of h s]
  have 1: "form (fst (useEffect_load h (Some p) s)) = form_reset h (form s) (revive h (Obj ps))"
    unfolding run by (simp add: begin_form)
  have 3: "truthy (get (Obj ps) (js ''destination'')) =
           (case map_of ps (js ''destination'') of
              None \<Rightarrow> False
            | Some (Str d) \<Rightarrow> d \<noteq> []
            | Some v \<Rightarrow> truthy v)"
    by (simp split: option.splits jsval.splits)
  have 4: "effects (fst (generateItinerary_begin h (revive h (Obj ps)) (s\<lparr>form := form_reset h (form s) (revive h (Obj ps))\<rparr>)))
           \<noteq> effects (s\<lparr>form := form_reset h (form s) (revive h (Obj ps))\<rparr>)"
    by (rule begin_effects_grow)
  from 1 run 3 4 show ?thesis by (intro conjI)
qed

lemma atob_goa_plan:
  \<open>atob goa_plan = Inr (js ''{"destination":"Goa","startDate":"2025-01-01T00:00:00.000Z"}'')\<close>
  by (simp add: goa_plan_def atob_def strip_padding_def is_ascii_whitespace_def b64_value_def js_def)

lemma parse_goa_record:
  \<open>JSON_parse (js ''{"destination":"Goa","startDate":"2025-01-01T00:00:00.000Z"}'') = Inr (Obj goa_record)\<close>
  by (simp add: goa_record_def JSON_parse_def js_def skip_ws_def is_ws_def make_object_def unescape_def)

lemma decode_goa_plan: "decode_plan goa_plan = Inr (Obj goa_record)"
  by (simp add: decode_plan_def atob_goa_plan parse_goa_record)

lemma goa_plan_nonempty: "goa_plan \<noteq> []"
  by (simp add: goa_plan_def js_def)

lemma revive_goa:
  "revive example_host (Obj goa_record) =
     Obj [(js ''destination'', Str (js ''Goa'')), (js ''startDate'', DateV (Some 1735689600000))]"
  by (simp add: revive_def goa_record_def example_host_def js_def)

lemma reset_goa:
  "form_reset example_host f
     (Obj [(js ''destination'', Str (js ''Goa'')), (js ''startDate'', DateV (Some 1735689600000))]) =
   Obj [(js ''destination'', Str (js ''Goa'')),
        (js ''days'', Num 3),
        (js ''budget'', Str (js ''Medium'')),
        (js ''travelers'', Num 2),
        (js ''interests'', Str []),
        (js ''pace'', Str (js ''Balanced'')),
        (js ''mustInclude'', Str []),
        (js ''avoid'', Str []),
        (js ''notes'', Str []),
        (js ''startDate'', DateV (Some 1735689600000))]"
  by (simp add: example_host_def reset_over_defaults_def defaultValues_def js_def)

lemma begin_goa_call:
  "snd (generateItinerary_begin example_host
          (Obj [(js ''destination'', Str (js ''Goa'')), (js ''startDate'', DateV (Some 1735689600000))]) s)
   = Some (Obj [(js ''destination'', Str (js ''Goa'')), (js ''startDate'', Str (js ''2025-01-01''))])"
  by (simp add: generateItinerary_begin_def Let_def example_host_def js_def)

theorem plan_load_resets_and_triggers_witness:
  "form (fst (useEffect_load example_host (Some goa_plan) (initial_page []))) =
     Obj [(js ''destination'', Str (js ''Goa'')),
          (js ''days'', Num 3),
          (js ''budget'', Str (js ''Medium'')),
          (js ''travelers'', Num 2),
          (js ''interests'', Str []),
          (js ''pace'', Str (js ''Balanced'')),
          (js ''mustInclude'', Str []),
          (js ''avoid'', Str []),
          (js ''notes'', Str []),
          (js ''startDate'', DateV (Some 1735689600000))]
   \<and> snd (useEffect_load example_host (Some goa_plan) (initial_page [])) =
     Some (Obj [(js ''destination'', Str (js ''Goa'')), (js ''startDate'', Str (js ''2025-01-01''))])"
proof -
  have t: "truthy (get (Obj goa_record) (js ''destination''))"
    by (simp add: goa_record_def js_def)
  note th = plan_load_resets_and_triggers [OF goa_plan_nonempty decode_goa_plan, of example_host "initial_page []"]
  from th have "form (fst (useEffect_load example_host (Some goa_plan) (initial_page []))) =
      form_reset example_host (form (initial_page [])) (revive example_host (Obj goa_record))"
    by (rule conjunct1)
  then have 1: "form (fst (useEffect_load example_host (Some goa_plan) (initial_page []))) =
     Obj [(js ''destination'', Str (js ''Goa'')),
          (js ''days'', Num 3),
          (js ''budget'', Str (js ''Medium'')),
          (js ''travelers'', Num 2),
          (js ''interests'', Str []),
          (js ''pace'', Str (js ''Balanced'')),
          (js ''mustInclude'', Str []),
          (js ''avoid'', Str []),
          (js ''notes'', Str []),
          (js ''startDate'', DateV (Some 1735689600000))]"
    by (simp only: revive_goa reset_goa)
  from th have "useEffect_load example_host (Some goa_plan) (initial_page []) =
           (if truthy (get (Obj goa_record) (js ''destination''))
            then generateItinerary_begin example_host (revive example_host (Obj goa_record))
                   ((initial_page [])\<lparr>form := form_reset example_host (form (initial_page [])) (revive example_host (Obj goa_record))\<rparr>)
            else ((initial_page [])\<lparr>form := form_reset example_host (form (initial_page [])) (revive example_host (Obj goa_record))\<rparr>, None))"
    by (rule conjunct1 [OF conjunct2])
  then have 2: "snd (useEffect_load example_host (Some goa_plan) (initial_page [])) =
     Some (Obj [(js ''destination'', Str (js ''Goa'')), (js ''startDate'', Str (js ''2025-01-01''))])"
    by (simp only: t if_True revive_goa begin_goa_call)
  from 1 2 show ?thesis by (rule conjI)
qed

section \<open>Precedence of the plan parameter\<close>

lemma begin_no_read:
  "filter is_GetItem (effects (fst (generateItinerary_begin h data s))) = filter is_GetItem (effects s)"
  by (simp add: generateItinerary_begin_def localStorage_setItem_def show_toast_def Let_def
      split: sum.splits)

lemma begin_effects_prefix:
  "prefix (effects s) (effects (fst (generateItinerary_begin h data s)))"
  by (simp add: generateItinerary_begin_def localStorage_setItem_def show_toast_def Let_def
      split: sum.splits)

lemma dataToLoad_empty: "dataToLoad (Some []) s = dataToLoad None s"
  by (simp add: dataToLoad_def)

lemma dataToLoad_reads:
  "prefix (effects s @ [GetItem (js ''last_itinerary_input'')]) (effects (snd (dataToLoad None s)))"
  by (simp add: dataToLoad_def localStorage_getItem_def console_error_def
      split: option.splits sum.splits)

lemma load_reads:
  "prefix (effects s @ [GetItem (js ''last_itinerary_input'')]) (effects (fst (useEffect_load h None s)))"
proof (cases "dataToLoad None s")
  case (Pair d s1)
  with dataToLoad_reads [of s]
  have r: "prefix (effects s @ [GetItem (js ''last_itinerary_input'')]) (effects s1)"
    by simp
  let ?s2 = "s1\<lparr>form := form_reset h (form s1) (revive h d)\<rparr>"
  have "prefix (effects s1) (effects (fst (generateItinerary_begin h (revive h d) ?s2)))"
    using begin_effects_prefix [of ?s2 h "revive h d"] by simp
  with r have "prefix (effects s @ [GetItem (js ''last_itinerary_input'')])
      (effects (fst (generateItinerary_begin h (revive h d) ?s2)))"
    by (rule prefix_order.trans)
  with r Pair show ?thesis
    by (simp add: useEffect_load_def Let_def)
qed

lemma load_nonempty_plan:
  assumes "p \<noteq> []"
  shows "filter is_GetItem (effects (fst (useEffect_load h (Some p) s))) = filter is_GetItem (effects s)
       \<and> (case decode_plan p of
            Inl e \<Rightarrow>
              useEffect_load h (Some p) s =
                (s\<lparr>effects := effects s @ [ConsoleError (js ''Failed to parse plan from URL'')]\<rparr>, None)
          | Inr v \<Rightarrow> True)"
  using assms
  by (auto simp: useEffect_load_def dataToLoad_plan console_error_def begin_no_read Let_def
      split: sum.splits)

text \<open>
  Claim C9, amended. Whenever the \<open>plan\<close> parameter is present and non-empty, the effect
  does not read \<open>localStorage\<close>: no \<open>getItem\<close> is added to the trace, whatever the
  parameter holds. When the parameter cannot be decoded, the effect only writes the
  console diagnostic: the form is left as it was, no saved record is used instead and
  no generation is started. A parameter that is present but empty is treated like an
  absent one: the effect does what it does without the parameter, and that begins with
  reading \<open>last_itinerary_input\<close> from \<open>localStorage\<close>.
\<close>

theorem plan_parameter_precedence:
  "(p \<noteq> [] \<longrightarrow>
      filter is_GetItem (effects (fst (useEffect_load h (Some p) s))) = filter is_GetItem (effects s)
      \<and> (case decode_plan p of
           Inl e \<Rightarrow>
             useEffect_load h (Some p) s =
               (s\<lparr>effects := effects s @ [ConsoleError (js ''Failed to parse plan from URL'')]\<rparr>, None)
         | Inr v \<Rightarrow> True))
   \<and> useEffect_load h (Some []) s = useEffect_load h None s
   \<and> prefix (effects s @ [GetItem (js ''last_itinerary_input'')])
        (effects (fst (useEffect_load h None s)))"
proof (intro conjI impI)
  assume "p \<noteq> []"
  from load_nonempty_plan [OF this, of h s]
  show "filter is_GetItem (effects (fst (useEffect_load h (Some p) s))) = filter is_GetItem (effects s)"
    and "case decode_plan p of
           Inl e \<Rightarrow>
             useEffect_load h (Some p) s =
               (s\<lparr>effects := effects s @ [ConsoleError (js ''Failed to parse plan from URL'')]\<rparr>, None)
         | Inr v \<Rightarrow> True"
    by simp_all
next
  show "useEffect_load h (Some []) s = useEffect_load h None s"
    by (simp add: useEffect_load_def dataToLoad_empty)
next
  show "prefix (effects s @ [GetItem (js ''last_itinerary_input'')])
        (effects (fst (useEffect_load h None s)))"
    by (rule load_reads)
qed

theorem plan_parameter_precedence_witness:
  "filter is_GetItem (effects (fst (useEffect_load example_host (Some (js ''not base64!''))
      (initial_page [(js ''last_itinerary_input'', js ''{}'')])))) = []
   \<and> form (fst (useEffect_load example_host (Some (js ''not base64!''))
      (initial_page [(js ''last_itinerary_input'', js ''{}'')]))) = defaultValues
   \<and> useEffect_load example_host (Some []) (initial_page [(js ''last_itinerary_input'', js ''{}'')]) =
       useEffect_load example_host None (initial_page [(js ''last_itinerary_input'', js ''{}'')])"
proof -
  have ne: "js ''not base64!'' \<noteq> []" by (simp add: js_def)
  have bad: "decode_plan (js ''not base64!'') = Inl (Thrown (Some (js ''InvalidCharacterError'')))"
    by (simp add: decode_plan_def atob_def strip_padding_def is_ascii_whitespace_def b64_value_def js_def)
  from plan_parameter_precedence [of "js ''not base64!''" example_host "initial_page [(js ''last_itinerary_input'', js ''{}'')]"]
  show ?thesis
    by (simp add: ne bad initial_page_def)
qed

text \<open>
  The claim as stated fails for a \<open>plan\<close> parameter that is present but empty
  (\<open>?plan=\<close>): \<open>if (planParam)\<close> takes the other branch, the saved record is read and
  \<open>form.reset\<close> is called with it, so that the form has the saved note.
\<close>

theorem empty_plan_parameter_reads_storage:
  \<open>effects (fst (useEffect_load example_host (Some [])
      (initial_page [(js ''last_itinerary_input'', js ''{"notes":"saved"}'')]))) =
     [GetItem (js ''last_itinerary_input'')]
   \<and> form (fst (useEffect_load example_host (Some [])
      (initial_page [(js ''last_itinerary_input'', js ''{"notes":"saved"}'')]))) =
     Obj [(js ''destination'', Str []),
          (js ''days'', Num 3),
          (js ''budget'', Str (js ''Medium'')),
          (js ''travelers'', Num 2),
          (js ''interests'', Str []),
          (js ''pace'', Str (js ''Balanced'')),
          (js ''mustInclude'', Str []),
          (js ''avoid'', Str []),
          (js ''notes'', Str (js ''saved''))]\<close>
proof -
  have p: \<open>JSON_parse (js ''{"notes":"saved"}'') = Inr (Obj [(js ''notes'', Str (js ''saved''))])\<close>
    by (simp add: JSON_parse_def js_def skip_ws_def is_ws_def make_object_def unescape_def)
  have ne: \<open>js ''{"notes":"saved"}'' \<noteq> []\<close> by (simp add: js_def)
  have r: "revive example_host (Obj [(js ''notes'', Str (js ''saved''))]) = Obj [(js ''notes'', Str (js ''saved''))]"
    by (simp add: revive_def js_def)
  have d: "js ''destination'' \<noteq> js ''notes''" "js ''notes'' \<noteq> js ''destination''"
    by (simp_all add: js_def)
  have f: "form_reset example_host f (Obj [(js ''notes'', Str (js ''saved''))]) =
     Obj [(js ''destination'', Str []),
          (js ''days'', Num 3),
          (js ''budget'', Str (js ''Medium'')),
          (js ''travelers'', Num 2),
          (js ''interests'', Str []),
          (js ''pace'', Str (js ''Balanced'')),
          (js ''mustInclude'', Str []),
          (js ''avoid'', Str []),
          (js ''notes'', Str (js ''saved''))]" for f
    by (simp add: example_host_def reset_over_defaults_def defaultValues_def js_def)
  have l: \<open>dataToLoad (Some []) (initial_page [(js ''last_itinerary_input'', js ''{"notes":"saved"}'')]) =
      (Obj [(js ''notes'', Str (js ''saved''))],
       (initial_page [(js ''last_itinerary_input'', js ''{"notes":"saved"}'')])
         \<lparr>effects := [GetItem (js ''last_itinerary_input'')]\<rparr>)\<close>
    by (simp add: dataToLoad_def localStorage_getItem_def initial_page_def p ne)
  show ?thesis
    by (simp add: useEffect_load_def l r d f Let_def)
qed

section \<open>Failures\<close>

lemma settle_error_effects:
  "effects (generateItinerary_settle i (Resolved (Error e)) s) =
     effects s @ [ToastShown \<lparr>variant = js ''destructive'', title = js ''Error Generating Itinerary'',
                               description = e\<rparr>]"
  by (simp add: generateItinerary_settle_def show_toast_def)

lemma settle_rejected_effects:
  "effects (generateItinerary_settle i Rejected s) = effects s @ [ToastShown unexpected_error_toast]"
  by (simp add: generateItinerary_settle_def show_toast_def unexpected_error_toast_def)

lemma begin_format_throws:
  "date_fns_format h (get data (js ''startDate'')) = Inl x \<Longrightarrow>
   snd (generateItinerary_begin h data s) = None \<and>
   effects (fst (generateItinerary_begin h data s)) =
     effects s @ [SetItem (js ''last_itinerary_input'') (text_of (JSON_stringify h data)),
                  ToastShown unexpected_error_toast]"
  by (simp add: generateItinerary_begin_def localStorage_setItem_def show_toast_def
      unexpected_error_toast_def Let_def)

lemma action_response_throw:
  "generatePersonalizedItineraryFlow h b input = Inl x \<Longrightarrow>
   action_response h b sv input =
     (case x of Nullish \<Rightarrow> Rejected | Thrown m \<Rightarrow> Resolved (Error (error_message m)))"
  by (simp add: action_response_def generateItineraryAction_def generatePersonalizedItinerary_def
      error_message_def Let_def split: option.splits thrown.splits)

lemma flow_rejects:
  "\<not> accepted_preferences input \<Longrightarrow>
   generatePersonalizedItineraryFlow h b input = Inl (schema_violation b)"
  using input_schema_accepts [of h input]
  by (cases "zobject h GeneratePersonalizedItineraryInputSchema input")
     (simp_all add: generatePersonalizedItineraryFlow_def)

lemma load_malformed_plan:
  "p \<noteq> [] \<Longrightarrow> decode_plan p = Inl x \<Longrightarrow>
   useEffect_load h (Some p) s =
     (s\<lparr>effects := effects s @ [ConsoleError (js ''Failed to parse plan from URL'')]\<rparr>, None)"
  by (simp add: useEffect_load_def dataToLoad_plan console_error_def)

lemma load_malformed_saved:
  "map_of (localStorage s) (js ''last_itinerary_input'') = Some t \<Longrightarrow> t \<noteq> [] \<Longrightarrow>
   JSON_parse t = Inl x \<Longrightarrow>
   useEffect_load h None s =
     (s\<lparr>effects := effects s @ [GetItem (js ''last_itinerary_input''),
                                   ConsoleError (js ''Failed to parse plan from localStorage'')]\<rparr>, None)"
  by (simp add: useEffect_load_def dataToLoad_def localStorage_getItem_def console_error_def)

text \<open>
  Claim C3, amended. A failure of a generation request is caught and becomes exactly one
  destructive toast, with no retry: an error object returned by the action gives the
  toast \<open>Error Generating Itinerary\<close> with the action's error string, whether the flow
  threw because the input does not fit its schema or because the remote call failed; a
  rejected call (as when the flow throws \<open>null\<close> or \<open>undefined\<close>, which the action does not
  turn into an error object) and a start date that \<open>format\<close> cannot handle give the toast
  \<open>An unexpected error occurred\<close>. A malformed shared-link payload, and a malformed saved
  record, are caught as well, but only a console diagnostic is written: no toast is
  shown and the state is otherwise unchanged.
\<close>

theorem failures_at_the_boundary:
  "effects (generateItinerary_settle i (Resolved (Error e)) s) =
     effects s @ [ToastShown \<lparr>variant = js ''destructive'', title = js ''Error Generating Itinerary'',
                               description = e\<rparr>]
   \<and> effects (generateItinerary_settle i Rejected s) = effects s @ [ToastShown unexpected_error_toast]
   \<and> (\<forall>x. date_fns_format h (get data (js ''startDate'')) = Inl x \<longrightarrow>
         snd (generateItinerary_begin h data s) = None \<and>
         effects (fst (generateItinerary_begin h data s)) =
           effects s @ [SetItem (js ''last_itinerary_input'') (text_of (JSON_stringify h data)),
                        ToastShown unexpected_error_toast])
   \<and> (\<forall>x. generatePersonalizedItineraryFlow h b input = Inl x \<longrightarrow>
         action_response h b sv input =
           (case x of Nullish \<Rightarrow> Rejected | Thrown m \<Rightarrow> Resolved (Error (error_message m))))
   \<and> (\<not> accepted_preferences input \<longrightarrow>
         generatePersonalizedItineraryFlow h b input = Inl (schema_violation b))
   \<and> (\<forall>x. p \<noteq> [] \<and> decode_plan p = Inl x \<longrightarrow>
         useEffect_load h (Some p) s =
           (s\<lparr>effects := effects s @ [ConsoleError (js ''Failed to parse plan from URL'')]\<rparr>, None))
   \<and> (\<forall>t x. map_of (localStorage s) (js ''last_itinerary_input'') = Some t \<and> t \<noteq> []
            \<and> JSON_parse t = Inl x \<longrightarrow>
         useEffect_load h None s =
           (s\<lparr>effects := effects s @ [GetItem (js ''last_itinerary_input''),
                                         ConsoleError (js ''Failed to parse plan from localStorage'')]\<rparr>, None))"
  by (intro conjI allI impI)
     (simp_all add: settle_error_effects settle_rejected_effects begin_format_throws
        action_response_throw flow_rejects load_malformed_plan load_malformed_saved)

text \<open>
  The claim as stated fails for a malformed shared-link payload: the trace of the load
  holds the console diagnostic and no toast.
\<close>

theorem malformed_plan_shows_no_toast:
  "effects (fst (useEffect_load example_host (Some (js ''not base64!'')) (initial_page []))) =
     [ConsoleError (js ''Failed to parse plan from URL'')]"
  by (simp add: useEffect_load_def dataToLoad_def decode_plan_def atob_def strip_padding_def
      is_ascii_whitespace_def b64_value_def js_def console_error_def initial_page_def)

theorem failures_at_the_boundary_witness:
  "useEffect_load example_host (Some (js ''AAAAA'')) (initial_page []) =
     ((initial_page [])\<lparr>effects := [ConsoleError (js ''Failed to parse plan from URL'')]\<rparr>, None)
   \<and> action_response example_host \<lparr>prompt = (\<lambda>v. Inl (Thrown None)), schema_violation = Thrown (Some (js ''Schema validation failed''))\<rparr>
        \<lparr>flow_calls = [], server_console = []\<rparr> Null =
      Resolved (Error (js ''Failed to generate itinerary: Schema validation failed''))"
proof -
  have ne: "js ''AAAAA'' \<noteq> []" by (simp add: js_def)
  have bad: "decode_plan (js ''AAAAA'') = Inl (Thrown (Some (js ''InvalidCharacterError'')))"
    by (simp add: decode_plan_def atob_def strip_padding_def is_ascii_whitespace_def b64_value_def js_def)
  have rej: "\<not> accepted_preferences Null"
    by (simp add: accepted_preferences_def)
  let ?b = "\<lparr>prompt = (\<lambda>v. Inl (Thrown None)), schema_violation = Thrown (Some (js ''Schema validation failed''))\<rparr>"
  note th = failures_at_the_boundary [of _ _ "initial_page []" example_host _ ?b Null
      "\<lparr>flow_calls = [], server_console = []\<rparr>" "js ''AAAAA''"]
  from th ne bad have 1: "useEffect_load example_host (Some (js ''AAAAA'')) (initial_page []) =
     ((initial_page [])\<lparr>effects := effects (initial_page []) @ [ConsoleError (js ''Failed to parse plan from URL'')]\<rparr>, None)"
    by blast
  from th rej have "generatePersonalizedItineraryFlow example_host ?b Null = Inl (schema_violation ?b)"
    by blast
  with th have "action_response example_host ?b \<lparr>flow_calls = [], server_console = []\<rparr> Null =
      (case schema_violation ?b of Nullish \<Rightarrow> Rejected | Thrown m \<Rightarrow> Resolved (Error (error_message m)))"
    by blast
  with 1 show ?thesis
    by (simp add: initial_page_def error_message_def js_def)
qed

section \<open>The server action and a throw of nothing\<close>

lemma flow_accepted:
  "accepted_preferences input \<Longrightarrow> generatePersonalizedItineraryFlow h b input = prompt b input"
  using input_schema_accepts [of h input]
  by (cases "zobject h GeneratePersonalizedItineraryInputSchema input")
     (simp_all add: generatePersonalizedItineraryFlow_def)

text \<open>
  What the action does, whatever the input, the host and the generative side: it calls
  the flow once; it returns the flow's itinerary; when the flow throws a value other than
  \<open>null\<close> and \<open>undefined\<close>, it writes it to the console and returns the error object with
  the message or the fallback; when the flow throws \<open>null\<close> or \<open>undefined\<close>, it writes it to
  the console and throws.
\<close>

lemma generateItineraryAction_result:
  "fst (generateItineraryAction h b input sv) =
     (case generatePersonalizedItineraryFlow h b input of
        Inr out \<Rightarrow> Inr (Itinerary out)
      | Inl Nullish \<Rightarrow> Inl (Thrown (Some (js ''TypeError'')))
      | Inl (Thrown m) \<Rightarrow> Inr (Error (error_message m)))
   \<and> flow_calls (snd (generateItineraryAction h b input sv)) = flow_calls sv @ [input]
   \<and> server_console (snd (generateItineraryAction h b input sv)) =
       server_console sv @
         (case generatePersonalizedItineraryFlow h b input of Inr out \<Rightarrow> [] | Inl e \<Rightarrow> [e])"
  by (cases "generatePersonalizedItineraryFlow h b input")
     (auto simp: generateItineraryAction_def generatePersonalizedItinerary_def error_message_def
           Let_def split: option.splits thrown.splits)

text \<open>
  Claim C1 fails on the code. The input is a record the schema accepts, and the
  generative call throws \<open>undefined\<close> (a promise rejected without a reason). The \<open>catch\<close>
  block of the action reads \<open>e.message\<close> of it, which throws: the action throws a
  TypeError instead of returning \<open>{ error: "Failed to generate itinerary: An unknown
  error occurred." }\<close>. The flow has been called once, and the console holds the caught
  value.
\<close>

theorem generateItineraryAction_throws_on_nullish:
  "generateItineraryAction example_host
     \<lparr>prompt = (\<lambda>v. Inl Nullish), schema_violation = Thrown (Some (js ''Schema validation failed''))\<rparr>
     (Obj [(js ''destination'', Str (js ''Goa'')), (js ''startDate'', Str (js ''2025-01-01'')),
           (js ''interests'', Str (js ''Food''))])
     \<lparr>flow_calls = [], server_console = []\<rparr> =
   (Inl (Thrown (Some (js ''TypeError''))),
    \<lparr>flow_calls = [Obj [(js ''destination'', Str (js ''Goa'')), (js ''startDate'', Str (js ''2025-01-01'')),
                        (js ''interests'', Str (js ''Food''))]],
     server_console = [Nullish]\<rparr>)"
proof -
  let ?input = "Obj [(js ''destination'', Str (js ''Goa'')), (js ''startDate'', Str (js ''2025-01-01'')),
                     (js ''interests'', Str (js ''Food''))]"
  let ?b = "\<lparr>prompt = (\<lambda>v. Inl Nullish), schema_violation = Thrown (Some (js ''Schema validation failed''))\<rparr>"
  have "accepted_preferences ?input"
    by (simp add: accepted_preferences_def js_def)
  from flow_accepted [OF this, of example_host ?b]
  have "generatePersonalizedItineraryFlow example_host ?b ?input = Inl Nullish"
    by simp
  then show ?thesis
    by (simp add: generateItineraryAction_def generatePersonalizedItinerary_def Let_def)
qed

section \<open>Calls of generateItinerary in a run\<close>

lemma begin_itinerary: "itinerary (fst (generateItinerary_begin h data s)) = None"
  by (simp add: generateItinerary_begin_def localStorage_setItem_def show_toast_def Let_def
      split: sum.splits)

lemma settle_itinerary:
  "itinerary (generateItinerary_settle i result s) =
     (case result of Resolved (Itinerary out) \<Rightarrow> Some out | _ \<Rightarrow> itinerary s)"
  by (simp add: generateItinerary_settle_def show_toast_def split: outcome.splits action_result.splits)

lemma generateItinerary_itinerary:
  "itinerary (generateItinerary h respond data s) =
     (case snd (generateItinerary_begin h data s) of
        None \<Rightarrow> None
      | Some input \<Rightarrow> (case respond input of Resolved (Itinerary out) \<Rightarrow> Some out | _ \<Rightarrow> None))"
proof (cases "generateItinerary_begin h data s")
  case (Pair s1 r)
  with begin_itinerary [of h data s] have "itinerary s1 = None" by simp
  with Pair show ?thesis
    by (simp add: generateItinerary_def settle_itinerary
        split: option.splits outcome.splits action_result.splits)
qed

lemma begin_flight:
  "in_flight (fst (generateItinerary_begin h data s)) =
     in_flight s @ (case snd (generateItinerary_begin h data s) of None \<Rightarrow> [] | Some input \<Rightarrow> [input])
   \<and> loading (fst (generateItinerary_begin h data s)) = (snd (generateItinerary_begin h data s) \<noteq> None)"
  by (simp add: generateItinerary_begin_def localStorage_setItem_def show_toast_def Let_def
      split: sum.splits)

lemma settle_flight:
  "in_flight (generateItinerary_settle i result s) = take i (in_flight s) @ drop (Suc i) (in_flight s)
   \<and> loading (generateItinerary_settle i result s) = False"
  by (simp add: generateItinerary_settle_def show_toast_def
      split: outcome.splits action_result.splits)

lemma begin_one_at_a_time:
  "in_flight s = [] \<Longrightarrow> one_at_a_time (fst (generateItinerary_begin h data s))"
  using begin_flight [of h data s]
  by (cases "snd (generateItinerary_begin h data s)") (simp_all add: one_at_a_time_def)

lemma dataToLoad_keeps:
  "itinerary (snd (dataToLoad p s)) = itinerary s
   \<and> in_flight (snd (dataToLoad p s)) = in_flight s
   \<and> loading (snd (dataToLoad p s)) = loading s
   \<and> form (snd (dataToLoad p s)) = form s"
  by (simp add: dataToLoad_def localStorage_getItem_def console_error_def
      split: sum.splits option.splits)

lemma load_calls:
  "calls_generateItinerary h s (Load p) \<Longrightarrow>
   useEffect_load h p s =
     generateItinerary_begin h (revive h (fst (dataToLoad p s)))
       ((snd (dataToLoad p s))\<lparr>form := form_reset h (form s) (revive h (fst (dataToLoad p s)))\<rparr>)"
  using dataToLoad_keeps [of p s]
  by (cases "dataToLoad p s") (simp add: useEffect_load_def Let_def)

lemma load_no_call:
  assumes "\<not> calls_generateItinerary h s (Load p)"
  shows "itinerary (fst (useEffect_load h p s)) = itinerary s
       \<and> in_flight (fst (useEffect_load h p s)) = in_flight s
       \<and> loading (fst (useEffect_load h p s)) = loading s
       \<and> snd (useEffect_load h p s) = None"
proof (cases "dataToLoad p s")
  case (Pair d s0)
  with dataToLoad_keeps [of p s]
  have k: "itinerary s0 = itinerary s" "in_flight s0 = in_flight s" "loading s0 = loading s"
    by simp_all
  from assms Pair have "\<not> (truthy d \<and> truthy (get (revive h d) (js ''destination'')))"
    by simp
  with Pair k show ?thesis
    by (auto simp: useEffect_load_def Let_def)
qed

lemma load_serial:
  assumes "calls_generateItinerary h s (Load p) \<longrightarrow> in_flight s = []"
    and "one_at_a_time s" and "in_flight s \<noteq> [] \<longrightarrow> itinerary s = None"
  shows "one_at_a_time (fst (useEffect_load h p s))
       \<and> (in_flight (fst (useEffect_load h p s)) \<noteq> [] \<longrightarrow> itinerary (fst (useEffect_load h p s)) = None)
       \<and> itinerary (fst (useEffect_load h p s)) =
           (if calls_generateItinerary h s (Load p) then None else itinerary s)"
proof (cases "calls_generateItinerary h s (Load p)")
  case True
  let ?s2 = "(snd (dataToLoad p s))\<lparr>form := form_reset h (form s) (revive h (fst (dataToLoad p s)))\<rparr>"
  from True assms(1) dataToLoad_keeps [of p s] have "in_flight ?s2 = []" by simp
  from begin_one_at_a_time [OF this] begin_itinerary [of h _ ?s2] True show ?thesis
    by (simp add: load_calls)
next
  case False
  from load_no_call [OF False] assms(2,3) False show ?thesis
    by (auto simp: one_at_a_time_def)
qed

lemma submit_serial:
  assumes "\<not> loading s" and "one_at_a_time s"
  shows "one_at_a_time (fst (handleSubmit h s))
       \<and> (in_flight (fst (handleSubmit h s)) \<noteq> [] \<longrightarrow> itinerary (fst (handleSubmit h s)) = None)
       \<and> itinerary (fst (handleSubmit h s)) =
           (if calls_generateItinerary h s Submit then None else itinerary s)"
proof (cases "zobject h formSchema (form s)")
  case None
  with assms show ?thesis by (simp add: handleSubmit_def one_at_a_time_def)
next
  case (Some data)
  from assms have "in_flight s = []" by (simp add: one_at_a_time_def)
  from begin_one_at_a_time [OF this, of h data] begin_itinerary [of h data s] Some assms(1)
  show ?thesis by (simp add: handleSubmit_def)
qed

lemma settle_serial:
  assumes "i < length (in_flight s)" and "one_at_a_time s" and "in_flight s \<noteq> [] \<longrightarrow> itinerary s = None"
  shows "one_at_a_time (generateItinerary_settle i result s)
       \<and> in_flight (generateItinerary_settle i result s) = []
       \<and> itinerary (generateItinerary_settle i result s) = result_after h s (Settle i result) held"
proof -
  from assms(1,2) have l: "length (in_flight s) = 1" and i: "i = 0"
    by (simp_all add: one_at_a_time_def)
  from l assms(3) have n: "itinerary s = None" by auto
  from l have d: "drop (Suc 0) (in_flight s) = []" by simp
  have 1: "in_flight (generateItinerary_settle i result s) = []"
    using settle_flight [of i result s] i d by simp
  have 2: "itinerary (generateItinerary_settle i result s) = result_after h s (Settle i result) held"
  proof (cases result)
    case Rejected
    with n show ?thesis by (simp add: settle_itinerary)
  next
    case (Resolved a)
    with n show ?thesis by (cases a) (simp_all add: settle_itinerary)
  qed
  have 3: "\<not> loading (generateItinerary_settle i result s)"
    using settle_flight [of i result s] by simp
  from 1 2 3 show ?thesis
    by (simp add: one_at_a_time_def)
qed

lemma step_serial:
  assumes "step h s e = Some s1"
    and "is_Load e \<and> calls_generateItinerary h s e \<longrightarrow> in_flight s = []"
    and "one_at_a_time s" and "in_flight s \<noteq> [] \<longrightarrow> itinerary s = None"
  shows "one_at_a_time s1 \<and> (in_flight s1 \<noteq> [] \<longrightarrow> itinerary s1 = None)
       \<and> itinerary s1 = result_after h s e (itinerary s)"
proof (cases e)
  case (Load p)
  with assms(1) have s1: "s1 = fst (useEffect_load h p s)" by simp
  from assms(2) Load have "calls_generateItinerary h s (Load p) \<longrightarrow> in_flight s = []" by simp
  from load_serial [OF this assms(3,4)] s1 Load show ?thesis by auto
next
  case Submit
  with assms(1) have nl: "\<not> loading s" and s1: "s1 = fst (handleSubmit h s)"
    by (auto split: if_splits)
  from submit_serial [OF nl assms(3), of h] s1 Submit show ?thesis by auto
next
  case (Settle i result)
  with assms(1) have i: "i < length (in_flight s)" and s1: "s1 = generateItinerary_settle i result s"
    by (auto split: if_splits)
  from settle_serial [OF i assms(3,4), of result h "itinerary s"] s1 Settle show ?thesis by auto
next
  case Clear
  with assms(1,3) show ?thesis
    by (auto simp: handleClear_def localStorage_removeItem_def one_at_a_time_def)
next
  case (Share origin pathname)
  with assms(1,3,4) show ?thesis
    by (auto simp: handleShare_def show_toast_def one_at_a_time_def Let_def split: sum.splits)
next
  case (Toggle interest)
  with assms(1,3,4) show ?thesis by (auto simp: one_at_a_time_def split: sum.splits)
next
  case (Input k v)
  with assms(1,3,4) show ?thesis by (auto simp: one_at_a_time_def)
qed

lemma run_serial:
  "serial_loads h s es \<Longrightarrow> one_at_a_time s \<Longrightarrow> (in_flight s \<noteq> [] \<longrightarrow> itinerary s = None) \<Longrightarrow>
   \<exists>s1. run h s es = Some s1 \<and> one_at_a_time s1
       \<and> itinerary s1 = most_recent_result h s es (itinerary s)"
proof (induction es arbitrary: s)
  case Nil
  then show ?case by simp
next
  case (Cons e es)
  from Cons.prems(1) obtain s0 where e: "step h s e = Some s0"
    and c: "is_Load e \<and> calls_generateItinerary h s e \<longrightarrow> in_flight s = []"
    and r: "serial_loads h s0 es"
    by (auto split: option.splits)
  from step_serial [OF e c Cons.prems(2,3)]
  have s0: "one_at_a_time s0" "in_flight s0 \<noteq> [] \<longrightarrow> itinerary s0 = None"
    "itinerary s0 = result_after h s e (itinerary s)"
    by blast+
  from Cons.IH [OF r s0(1,2)] e s0(3) show ?case by simp
qed

lemma initial_one_at_a_time: "one_at_a_time (initial_page stored) \<and> in_flight (initial_page stored) = []
   \<and> itinerary (initial_page stored) = None"
  by (simp add: one_at_a_time_def initial_page_def)

lemma step_starts_request:
  assumes "step h s e = Some s1" and "length (in_flight s) < length (in_flight s1)"
  shows "e = Submit \<or> is_Load e"
proof (cases e)
  case (Settle i result)
  with assms settle_flight [of i result s] show ?thesis by (auto split: if_splits)
next
  case Clear
  with assms show ?thesis by (auto simp: handleClear_def localStorage_removeItem_def)
next
  case (Share origin pathname)
  with assms show ?thesis
    by (auto simp: handleShare_def show_toast_def Let_def split: sum.splits)
next
  case (Toggle interest)
  with assms show ?thesis by (auto split: sum.splits)
next
  case (Input k v)
  with assms show ?thesis by auto
qed simp_all

subsection \<open>The page loaded with the shared plan for Goa\<close>

lemma dataToLoad_goa: "dataToLoad (Some goa_plan) s = (Obj goa_record, s)"
  by (simp add: dataToLoad_plan [OF goa_plan_nonempty] decode_goa_plan)

lemma calls_goa: "calls_generateItinerary example_host s (Load (Some goa_plan))"
  by (simp add: dataToLoad_goa revive_goa js_def)

lemma begin_goa_request:
  "snd (generateItinerary_begin example_host (revive example_host (Obj goa_record)) s) = Some goa_request"
  unfolding revive_goa goa_request_def by (rule begin_goa_call)

lemma load_goa:
  "in_flight (fst (useEffect_load example_host (Some goa_plan) s)) = in_flight s @ [goa_request]
   \<and> loading (fst (useEffect_load example_host (Some goa_plan) s))
   \<and> itinerary (fst (useEffect_load example_host (Some goa_plan) s)) = None"
  using begin_flight [of example_host "revive example_host (Obj goa_record)"
      "s\<lparr>form := form_reset example_host (form s) (revive example_host (Obj goa_record))\<rparr>"]
  by (simp add: load_calls [OF calls_goa] dataToLoad_goa begin_goa_request begin_itinerary)

section \<open>The displayed itinerary\<close>

lemma goa_data_request:
  "snd (generateItinerary_begin example_host goa_data s) = Some goa_request"
  unfolding goa_data_def goa_request_def by (rule begin_goa_call)

text \<open>
  Claim C6, amended. Every call of \<open>generateItinerary\<close> empties the itinerary held for
  display when it starts; a successful answer sets it, a failed answer leaves it as it
  is. So after a whole call it is that call's output when the call succeeded and empty
  when it failed: an earlier result does not stay on display across a later failed
  request. In every run from a fresh page in which the load effect does not call
  \<open>generateItinerary\<close> while a request is outstanding, the itinerary held for display is
  the result of the most recent call: empty from the start of the call, its output once
  it has succeeded, empty after the form is cleared.
\<close>

theorem displayed_itinerary:
  "itinerary (fst (generateItinerary_begin h data s)) = None
   \<and> itinerary (generateItinerary_settle i (Resolved (Itinerary out)) s) = Some out
   \<and> itinerary (generateItinerary_settle i (Resolved (Error e)) s) = itinerary s
   \<and> itinerary (generateItinerary_settle i Rejected s) = itinerary s
   \<and> itinerary (generateItinerary h respond data s) =
       (case snd (generateItinerary_begin h data s) of
          None \<Rightarrow> None
        | Some input \<Rightarrow> (case respond input of Resolved (Itinerary out) \<Rightarrow> Some out | _ \<Rightarrow> None))
   \<and> (serial_loads h (initial_page stored) es \<longrightarrow>
        (\<exists>s1. run h (initial_page stored) es = Some s1
            \<and> itinerary s1 = most_recent_result h (initial_page stored) es None))"
proof -
  have "\<exists>s1. run h (initial_page stored) es = Some s1
            \<and> itinerary s1 = most_recent_result h (initial_page stored) es None"
    if "serial_loads h (initial_page stored) es"
    using run_serial [OF that, of ] initial_one_at_a_time [of stored] by auto
  then show ?thesis
    by (simp add: begin_itinerary settle_itinerary generateItinerary_itinerary)
qed

theorem displayed_itinerary_witness:
  "map_option itinerary (run example_host (initial_page [])
      [Load (Some goa_plan), Settle 0 (Resolved (Itinerary sample_output)),
       Load (Some goa_plan), Settle 0 (Resolved (Itinerary other_output))]) = Some (Some other_output)
   \<and> map_option itinerary (run example_host (initial_page [])
      [Load (Some goa_plan), Settle 0 (Resolved (Itinerary sample_output)),
       Load (Some goa_plan), Settle 0 (Resolved (Error (js ''Failed to generate itinerary: timeout'')))]) = Some None"
proof -
  let ?s0 = "initial_page []"
  let ?s1 = "fst (useEffect_load example_host (Some goa_plan) ?s0)"
  let ?s2 = "generateItinerary_settle 0 (Resolved (Itinerary sample_output)) ?s1"
  let ?s3 = "fst (useEffect_load example_host (Some goa_plan) ?s2)"
  have f0: "in_flight ?s0 = []" by (simp add: initial_page_def)
  have f1: "in_flight ?s1 = [goa_request]" using load_goa [of ?s0] by (simp add: f0)
  have f2: "in_flight ?s2 = []" using settle_flight [of 0 _ ?s1] by (simp add: f1)
  have f3: "in_flight ?s3 = [goa_request]" using load_goa [of ?s2] by (simp add: f2)
  have a: "serial_loads example_host ?s0
      [Load (Some goa_plan), Settle 0 (Resolved (Itinerary sample_output)),
       Load (Some goa_plan), Settle 0 r]" for r
    by (simp add: f0 f1 f2 f3 del: calls_generateItinerary.simps)
  have m: "most_recent_result example_host ?s0
      [Load (Some goa_plan), Settle 0 (Resolved (Itinerary sample_output)),
       Load (Some goa_plan), Settle 0 r] None = result_after example_host ?s3 (Settle 0 r) None" for r
    by (simp add: f0 f1 f2 f3 calls_goa del: calls_generateItinerary.simps)
  note th = displayed_itinerary [where h = example_host and stored = "[]"]
  from th [where es = "[Load (Some goa_plan), Settle 0 (Resolved (Itinerary sample_output)),
       Load (Some goa_plan), Settle 0 (Resolved (Itinerary other_output))]"] a
  have 1: "map_option itinerary (run example_host (initial_page [])
      [Load (Some goa_plan), Settle 0 (Resolved (Itinerary sample_output)),
       Load (Some goa_plan), Settle 0 (Resolved (Itinerary other_output))]) = Some (Some other_output)"
    by (auto simp only: m result_after.simps option.map)
  from th [where es = "[Load (Some goa_plan), Settle 0 (Resolved (Itinerary sample_output)),
       Load (Some goa_plan), Settle 0 (Resolved (Error (js ''Failed to generate itinerary: timeout'')))]"] a
  have 2: "map_option itinerary (run example_host (initial_page [])
      [Load (Some goa_plan), Settle 0 (Resolved (Itinerary sample_output)),
       Load (Some goa_plan), Settle 0 (Resolved (Error (js ''Failed to generate itinerary: timeout'')))]) = Some None"
    by (auto simp only: m result_after.simps option.map)
  from 1 2 show ?thesis by (rule conjI)
qed

text \<open>
  The claim as stated fails in its last part: after a successful request and then a
  failed one, nothing is held for display. It also fails when the load effect runs
  again while a request is outstanding: the answer of the earlier call comes last and
  replaces the output of the more recent call.
\<close>

theorem failed_request_clears_itinerary:
  "itinerary (generateItinerary example_host (\<lambda>input. Resolved (Itinerary sample_output)) goa_data
      (initial_page [])) = Some sample_output
   \<and> itinerary (generateItinerary example_host (\<lambda>input. Resolved (Error (js ''Failed to generate itinerary: timeout''))) goa_data
       (generateItinerary example_host (\<lambda>input. Resolved (Itinerary sample_output)) goa_data
          (initial_page []))) = None
   \<and> map_option itinerary (run example_host (initial_page [])
       [Load (Some goa_plan), Load (Some goa_plan),
        Settle 1 (Resolved (Itinerary other_output)), Settle 0 (Resolved (Itinerary sample_output))])
      = Some (Some sample_output)
   \<and> sample_output \<noteq> other_output"
proof -
  let ?s0 = "initial_page []"
  let ?s1 = "fst (useEffect_load example_host (Some goa_plan) ?s0)"
  let ?s2 = "fst (useEffect_load example_host (Some goa_plan) ?s1)"
  have f0: "in_flight ?s0 = []" by (simp add: initial_page_def)
  have f1: "in_flight ?s1 = [goa_request]" using load_goa [of ?s0] by (simp add: f0)
  have f2: "in_flight ?s2 = [goa_request, goa_request]" using load_goa [of ?s1] by (simp add: f1)
  have f3: "in_flight (generateItinerary_settle (Suc 0) (Resolved (Itinerary other_output)) ?s2) = [goa_request]"
    using settle_flight [of "Suc 0" _ ?s2] by (simp add: f2)
  have 3: "map_option itinerary (run example_host (initial_page [])
       [Load (Some goa_plan), Load (Some goa_plan),
        Settle 1 (Resolved (Itinerary other_output)), Settle 0 (Resolved (Itinerary sample_output))])
      = Some (Some sample_output)"
    by (simp add: f0 f1 f2 f3 settle_itinerary)
  have 4: "sample_output \<noteq> other_output"
    by (simp add: sample_output_def other_output_def js_def)
  from 3 4 show ?thesis
    by (simp add: generateItinerary_itinerary goa_data_request)
qed

section \<open>One request at a time\<close>

text \<open>
  Claim C7, amended. A generation request is started by a form submission or by the
  load effect's auto-trigger, and by nothing else. \<open>loading\<close> is set when
  \<open>generateItinerary\<close> has made its call and is cleared on every way the call can end
  (success, error return, rejected call); submission is disabled while it is set. In
  every run from a fresh page in which the load effect does not call
  \<open>generateItinerary\<close> while a request is outstanding, at most one request is in flight
  at any time, and \<open>loading\<close> holds exactly while one is.
\<close>

theorem single_flight:
  "(loading s \<longrightarrow> step h s Submit = None)
   \<and> loading (fst (generateItinerary_begin h data s)) = (snd (generateItinerary_begin h data s) \<noteq> None)
   \<and> in_flight (fst (generateItinerary_begin h data s)) =
       in_flight s @ (case snd (generateItinerary_begin h data s) of None \<Rightarrow> [] | Some input \<Rightarrow> [input])
   \<and> loading (generateItinerary_settle i result s) = False
   \<and> in_flight (generateItinerary_settle i result s) = take i (in_flight s) @ drop (Suc i) (in_flight s)
   \<and> (\<forall>s1. step h s e = Some s1 \<and> length (in_flight s) < length (in_flight s1) \<longrightarrow>
          e = Submit \<or> is_Load e)
   \<and> (serial_loads h (initial_page stored) es \<longrightarrow>
        (\<exists>s1. run h (initial_page stored) es = Some s1
            \<and> length (in_flight s1) \<le> 1 \<and> loading s1 = (in_flight s1 \<noteq> [])))"
proof -
  have 1: "\<exists>s1. run h (initial_page stored) es = Some s1
            \<and> length (in_flight s1) \<le> 1 \<and> loading s1 = (in_flight s1 \<noteq> [])"
    if "serial_loads h (initial_page stored) es"
    using run_serial [OF that] initial_one_at_a_time [of stored] by (auto simp: one_at_a_time_def)
  have 2: "e = Submit \<or> is_Load e"
    if "step h s e = Some s1 \<and> length (in_flight s) < length (in_flight s1)" for s1
    using that step_starts_request [of h s e s1] by blast
  have 3: "\<forall>s1. step h s e = Some s1 \<and> length (in_flight s) < length (in_flight s1) \<longrightarrow>
          e = Submit \<or> is_Load e"
    using 2 by blast
  have 4: "serial_loads h (initial_page stored) es \<longrightarrow>
        (\<exists>s1. run h (initial_page stored) es = Some s1
            \<and> length (in_flight s1) \<le> 1 \<and> loading s1 = (in_flight s1 \<noteq> []))"
    using 1 by blast
  have 5: "loading s \<longrightarrow> step h s Submit = None"
    by simp
  from begin_flight [of h data s] settle_flight [of i result s] 3 4 5 show ?thesis
    by (intro conjI) simp_all
qed

theorem single_flight_witness:
  "step example_host (fst (useEffect_load example_host (Some goa_plan) (initial_page []))) Submit = None
   \<and> map_option (\<lambda>s. (in_flight s, loading s)) (run example_host (initial_page [])
        [Load (Some goa_plan), Settle 0 (Resolved (Itinerary sample_output)), Load (Some goa_plan)])
      = Some ([goa_request], True)"
proof -
  let ?s0 = "initial_page []"
  let ?s1 = "fst (useEffect_load example_host (Some goa_plan) ?s0)"
  let ?s2 = "generateItinerary_settle 0 (Resolved (Itinerary sample_output)) ?s1"
  let ?s3 = "fst (useEffect_load example_host (Some goa_plan) ?s2)"
  let ?es = "[Load (Some goa_plan), Settle 0 (Resolved (Itinerary sample_output)), Load (Some goa_plan)]"
  have f0: "in_flight ?s0 = []" by (simp add: initial_page_def)
  have f1: "in_flight ?s1 = [goa_request]" using load_goa [of ?s0] by (simp add: f0)
  have f2: "in_flight ?s2 = []" using settle_flight [of 0 _ ?s1] by (simp add: f1)
  have f3: "in_flight ?s3 = [goa_request]" using load_goa [of ?s2] by (simp add: f2)
  have l: "loading ?s1" using load_goa [of ?s0] by simp
  have a: "serial_loads example_host ?s0 ?es"
    by (simp add: f0 f1 f2 f3 del: calls_generateItinerary.simps)
  have r: "run example_host ?s0 ?es = Some ?s3"
    by (simp add: f1)
  note th = single_flight [where h = example_host and stored = "[]" and es = ?es and s = ?s1]
  from th l have 1: "step example_host ?s1 Submit = None"
    by blast
  from th a obtain s1 where "run example_host ?s0 ?es = Some s1"
    and "loading s1 = (in_flight s1 \<noteq> [])"
    by blast
  with r f3 have "loading ?s3" by simp
  with r f3 have 2: "map_option (\<lambda>s. (in_flight s, loading s)) (run example_host ?s0 ?es)
      = Some ([goa_request], True)"
    by simp
  from 1 2 show ?thesis by (rule conjI)
qed

text \<open>
  The claim as stated fails in two ways. Loading a page with a shared plan starts a
  request although no form was submitted. And the load effect does not look at
  \<open>loading\<close>: when it runs again while the first request is outstanding, two requests
  are in flight, and the first answer clears \<open>loading\<close> while the other request is still
  outstanding.
\<close>

theorem load_starts_a_request:
  "map_option in_flight (run example_host (initial_page []) [Load (Some goa_plan)]) = Some [goa_request]
   \<and> map_option in_flight (run example_host (initial_page [])
        [Load (Some goa_plan), Load (Some goa_plan)]) = Some [goa_request, goa_request]
   \<and> map_option (\<lambda>s. (in_flight s, loading s)) (run example_host (initial_page [])
        [Load (Some goa_plan), Load (Some goa_plan), Settle 0 (Resolved (Itinerary sample_output))])
      = Some ([goa_request], False)"
proof -
  let ?s0 = "initial_page []"
  let ?s1 = "fst (useEffect_load example_host (Some goa_plan) ?s0)"
  let ?s2 = "fst (useEffect_load example_host (Some goa_plan) ?s1)"
  have f0: "in_flight ?s0 = []" by (simp add: initial_page_def)
  have f1: "in_flight ?s1 = [goa_request]" using load_goa [of ?s0] by (simp add: f0)
  have f2: "in_flight ?s2 = [goa_request, goa_request]" using load_goa [of ?s1] by (simp add: f1)
  show ?thesis
    by (simp add: f1 f2 settle_flight)
qed

section \<open>The shareable link\<close>

text \<open>
  Claim C2 says that encoding the form's record into the shareable link and decoding it
  on load gives the record back. For a destination written outside Latin-1 the encoding
  does not even produce a link: \<open>btoa\<close> throws, \<open>handleShare\<close> ends with the exception,
  nothing is copied and no toast is shown.
\<close>

theorem handleShare_throws_outside_latin1:
  "handleShare example_host (js ''https://trip.example'') (js ''/'')
     ((initial_page [])\<lparr>form := tokyo_form\<rparr>) = Inl (Thrown (Some (js ''InvalidCharacterError'')))"
  by (simp add: handleShare_def initial_page_def tokyo_form_def defaultValues_def js_def text_of_def
      QuoteJSONString_def btoa_def quote_unit_def is_high_surrogate_def is_low_surrogate_def
      number_text_def)

text \<open>
  A second way the round trip is lost, on plain ASCII: the Base64 text of the form with
  the destination \<open>A>B\<close> holds a \<open>+\<close>, which the link carries unescaped; read back as
  a query value it is a space, and \<open>atob\<close> rejects what is left.
\<close>

lemma a_to_b_text:
  \<open>text_of (JSON_stringify example_host a_to_b_form) =
     js ''{"destination":"A>B","days":3,"budget":"Medium","travelers":2,"interests":"","pace":"Balanced","mustInclude":"","avoid":"","notes":""}''\<close>
  by (simp add: a_to_b_form_def defaultValues_def js_def text_of_def digits_of.simps [of 2] digits_of.simps [of 3]
      QuoteJSONString_def quote_unit_def is_high_surrogate_def is_low_surrogate_def number_text_def
      number_digits_def strip_zeros_def Let_def)

lemma a_to_b_base64:
  \<open>btoa (js ''{"destination":"A>B","days":3,"budget":"Medium","travelers":2,"interests":"","pace":"Balanced","mustInclude":"","avoid":"","notes":""}'') =
     Inr (js ''eyJkZXN0aW5hdGlvbiI6IkE+QiIsImRheXMiOjMsImJ1ZGdldCI6Ik1lZGl1bSIsInRyYXZlbGVycyI6MiwiaW50ZXJlc3RzIjoiIiwicGFjZSI6IkJhbGFuY2VkIiwibXVzdEluY2x1ZGUiOiIiLCJhdm9pZCI6IiIsIm5vdGVzIjoiIn0='')\<close>
  by (simp add: btoa_def b64_char_def js_def)

lemma a_to_b_link_lost:
  \<open>decode_plan (query_value (js ''eyJkZXN0aW5hdGlvbiI6IkE+QiIsImRheXMiOjMsImJ1ZGdldCI6Ik1lZGl1bSIsInRyYXZlbGVycyI6MiwiaW50ZXJlc3RzIjoiIiwicGFjZSI6IkJhbGFuY2VkIiwibXVzdEluY2x1ZGUiOiIiLCJhdm9pZCI6IiIsIm5vdGVzIjoiIn0='')) = Inl (Thrown (Some (js ''InvalidCharacterError'')))\<close>
  by (simp add: decode_plan_def query_value_def atob_def strip_padding_def is_ascii_whitespace_def
      b64_value_def js_def)

end
